theory Spec2Isabelle
  imports Complex_Main
begin

section \<open>JavaScript values\<close>

text \<open>
  The file \<^verbatim>\<open>lstm-text-generation/model_from_initials.js\<close> exports two functions,
  \<^verbatim>\<open>sample\<close> and \<^verbatim>\<open>generateText\<close>.  Both are clients of collaborators that are
  not part of the file: the tensor engine \<^verbatim>\<open>tf\<close>, the \<^verbatim>\<open>model\<close>, the encoder
  \<^verbatim>\<open>textData\<close> and the optional callback.  The collaborators are parameters of the
  embedding, and nothing is assumed about what they compute.

  A JavaScript number is a double.  \<^verbatim>\<open>Math.max\<close> and the comparisons are exact on
  doubles, so a finite number is modelled by its real value, next to the three special
  values.  The literal \<^verbatim>\<open>1e-6\<close> is the constant \<open>floorTemperature\<close>.
\<close>

datatype number = NaN | NegInfinity | Finite real | Infinity

text \<open>\<^verbatim>\<open>Math.max(a, b)\<close>: \<^verbatim>\<open>NaN\<close> as soon as one argument is \<^verbatim>\<open>NaN\<close>, the larger one otherwise.\<close>

fun math_max :: "number \<Rightarrow> number \<Rightarrow> number" where
  "math_max NaN b = NaN"
| "math_max a NaN = NaN"
| "math_max Infinity b = Infinity"
| "math_max a Infinity = Infinity"
| "math_max NegInfinity b = b"
| "math_max a NegInfinity = a"
| "math_max (Finite x) (Finite y) = Finite (max x y)"

text \<open>\<^verbatim>\<open>a <= b\<close> on numbers: false as soon as one side is \<^verbatim>\<open>NaN\<close>.\<close>

fun number_le :: "number \<Rightarrow> number \<Rightarrow> bool" where
  "number_le NaN b = False"
| "number_le a NaN = False"
| "number_le NegInfinity b = True"
| "number_le a Infinity = True"
| "number_le a NegInfinity = False"
| "number_le Infinity b = False"
| "number_le (Finite x) (Finite y) = (x \<le> y)"

definition floorTemperature :: number where
  "floorTemperature = Finite (1 / 1000000)"

text \<open>
  What an array holds: a number, or \<^verbatim>\<open>undefined\<close> (\<open>None\<close>).  \<open>first xs\<close> is
  \<^verbatim>\<open>xs[0]\<close>, which is \<^verbatim>\<open>undefined\<close> on the empty array and never raises; \<open>element xs j\<close>
  is \<^verbatim>\<open>xs[j]\<close> on an array of such values.
\<close>

type_synonym index = "int option"

fun first :: "int list \<Rightarrow> index" where
  "first [] = None"
| "first (x # xs) = Some x"

definition element :: "index list \<Rightarrow> nat \<Rightarrow> index" where
  "element xs j = (if j < length xs then xs ! j else None)"

text \<open>A thrown value, by its message.\<close>

datatype error = Thrown string

section \<open>The collaborators\<close>

text \<open>
  A call of a collaborator may raise and may change the world outside the function (the
  engine's global random source, the page the callback renders to): it maps the world
  \<open>'w\<close> to its result and the world after it.

  The tensor engine: \<open>'t\<close> are its tensors and \<open>'b\<close> its tensor buffers.  The arguments
  follow the calls of the source: \<^verbatim>\<open>tf.multinomial(logits, numSamples, seed, normalized)\<close>
  followed by \<^verbatim>\<open>dataSync()\<close> gives the drawn indices, and \<^verbatim>\<open>buffer.set(value, ...locs)\<close>
  gives the buffer after the write.  \<^verbatim>\<open>tf.tidy\<close> and \<^verbatim>\<open>dispose\<close> release memory and
  compute nothing.
\<close>

record ('t, 'b, 'w) engine =
  tf_log :: "'t \<Rightarrow> 't"
  tf_div :: "'t \<Rightarrow> number \<Rightarrow> 't"
  tf_squeeze :: "'t \<Rightarrow> 't"
  tf_multinomial :: "'t \<Rightarrow> nat \<Rightarrow> number option \<Rightarrow> bool \<Rightarrow> 'w \<Rightarrow> (error + int list) \<times> 'w"
  tf_buffer :: "nat list \<Rightarrow> 'b"
  tf_set :: "'b \<Rightarrow> number \<Rightarrow> index list \<Rightarrow> 'b"
  tf_toTensor :: "'b \<Rightarrow> 't"

text \<open>
  The model: \<^verbatim>\<open>model.inputs[0].shape[1]\<close>, \<^verbatim>\<open>model.inputs[0].shape[2]\<close> and
  \<^verbatim>\<open>model.predict\<close>.
\<close>

record ('t, 'w) model =
  sampleLen :: nat
  charSetSize :: nat
  predict :: "'t \<Rightarrow> 'w \<Rightarrow> (error + 't) \<times> 'w"

text \<open>
  The encoder \<^verbatim>\<open>textData\<close>.  \<^verbatim>\<open>getFromCharSet\<close> gives the string that
  \<^verbatim>\<open>generated +=\<close> and the regular expression of the loop read: for a value that is
  no string (\<^verbatim>\<open>undefined\<close>, say, for an index outside the character set) that is the
  string JavaScript converts it to.
\<close>

record 'w textData =
  textToIndices :: "string \<Rightarrow> 'w \<Rightarrow> (error + int list) \<times> 'w"
  getFromCharSet :: "index \<Rightarrow> 'w \<Rightarrow> (error + string) \<times> 'w"

text \<open>
  The callback \<^verbatim>\<open>onTextGenerationChar\<close>: \<open>None\<close> when the caller passes none
  (\<^verbatim>\<open>null\<close> or \<^verbatim>\<open>undefined\<close>).  The function awaits the promise the callback returns, so
  the callback's whole work is one change of the world, done when the call is.
\<close>

type_synonym 'w callback = "(string \<Rightarrow> 'w \<Rightarrow> (error + unit) \<times> 'w) option"

section \<open>sample\<close>

text \<open>
  \<^verbatim>\<open>
  export function sample(probs, temperature) {
    return tf.tidy(() => {
      const logits = tf.div(tf.log(probs), Math.max(temperature, 1e-6));
      const isNormalized = false;
      return tf.multinomial(logits, 1, null, isNormalized).dataSync()[0];
    });
  }
  \<close>
\<close>

definition sample ::
  "('t, 'b, 'w) engine \<Rightarrow> 't \<Rightarrow> number \<Rightarrow> 'w \<Rightarrow> (error + index) \<times> 'w" where
  "sample tf probs temperature w =
     (let logits = tf_div tf (tf_log tf probs) (math_max temperature floorTemperature);
          isNormalized = False
      in case tf_multinomial tf logits 1 None isNormalized w of
           (Inl e, w') \<Rightarrow> (Inl e, w')
         | (Inr drawn, w') \<Rightarrow> (Inr (first drawn), w'))"

section \<open>generateText\<close>

subsection \<open>State\<close>

text \<open>
  Arrays are objects: a variable holds a reference, \<^verbatim>\<open>slice\<close> allocates a new array and
  \<^verbatim>\<open>push\<close> writes into the array it is called on.  The store \<open>heap\<close> is the list of the
  arrays allocated so far and a reference is a position in it.

  The state of a call: the world of the collaborators, the store, the local variables
  \<^verbatim>\<open>sentenceIndices\<close> and \<^verbatim>\<open>generated\<close>, and the log \<open>history\<close> of what the call has
  done so far, in order, each event with the world at its time.  The log is not a
  variable of the source; its events are
  \<^item> \<open>Append str\<close>: a statement \<^verbatim>\<open>generated += str\<close>;
  \<^item> \<open>Encoded letter x\<close>: \<^verbatim>\<open>textData.textToIndices(letter)[0]\<close> has given \<open>x\<close>;
  \<^item> \<open>Window w\<close>: a shift \<^verbatim>\<open>slice(1)\<close>, \<^verbatim>\<open>push\<close> of the window has completed and the
    window now holds \<open>w\<close>;
  \<^item> \<open>Predict\<close>: a call of \<^verbatim>\<open>model.predict\<close>;
  \<^item> \<open>Sampled i c\<close>: a character was generated, \<^verbatim>\<open>winnerIndex\<close> is \<open>i\<close> and
    \<^verbatim>\<open>winnerChar\<close> is \<open>c\<close>;
  \<^item> \<open>OnChar c\<close>: a call \<^verbatim>\<open>onTextGenerationChar(c)\<close> starts;
  \<^item> \<open>Completed c\<close>: the promise of that call is settled and the \<^verbatim>\<open>await\<close> is over.

  \<open>trace\<close> is the log without the worlds.
\<close>

datatype event =
  Append string
| Encoded string index
| Window "index list"
| Predict
| Sampled index string
| OnChar string
| Completed string

record 'w state =
  world :: 'w
  heap :: "index list list"
  sentenceIndices :: nat
  generated :: string
  history :: "('w \<times> event) list"

definition trace :: "'w state \<Rightarrow> event list" where
  "trace s = map snd (history s)"

text \<open>
  How a piece of the function ends: with a value, with a value thrown (which the
  function never catches), or with the fuel of the model used up (see \<open>wordLoop\<close>).
  The state is kept in each case.
\<close>

datatype 'a result = Value 'a | Threw error | OutOfFuel

type_synonym ('a, 'w) prog = "'w state \<Rightarrow> 'a result \<times> 'w state"

definition unit :: "'a \<Rightarrow> ('a, 'w) prog" where
  "unit x s = (Value x, s)"

text \<open>Sequencing: \<open>k\<close> runs on the value of \<open>m\<close>, unless \<open>m\<close> did not end with one.\<close>

definition andThen :: "('a, 'w) prog \<Rightarrow> ('a \<Rightarrow> ('b, 'w) prog) \<Rightarrow> ('b, 'w) prog" where
  "andThen m k s =
     (case m s of
        (Value x, s') \<Rightarrow> k x s'
      | (Threw e, s') \<Rightarrow> (Threw e, s')
      | (OutOfFuel, s') \<Rightarrow> (OutOfFuel, s'))"

definition emit :: "event \<Rightarrow> (unit, 'w) prog" where
  "emit e s = (Value (), s\<lparr>history := history s @ [(world s, e)]\<rparr>)"

text \<open>A call of a collaborator.\<close>

definition call :: "('w \<Rightarrow> (error + 'a) \<times> 'w) \<Rightarrow> ('a, 'w) prog" where
  "call f s =
     (case f (world s) of
        (Inl e, w') \<Rightarrow> (Threw e, s\<lparr>world := w'\<rparr>)
      | (Inr x, w') \<Rightarrow> (Value x, s\<lparr>world := w'\<rparr>))"

text \<open>\<^verbatim>\<open>generated += str\<close>\<close>

definition appendText :: "string \<Rightarrow> (unit, 'w) prog" where
  "appendText str s =
     (Value (), s\<lparr>generated := generated s @ str,
                   history := history s @ [(world s, Append str)]\<rparr>)"

text \<open>
  The three uses of the array variable.  A reference outside the store is a value that
  is no array, on which each of them raises a \<^verbatim>\<open>TypeError\<close>.

  \<open>window\<close> reads the array \<^verbatim>\<open>sentenceIndices\<close>; \<open>sliceWindow k\<close> is
  \<^verbatim>\<open>sentenceIndices = sentenceIndices.slice(k)\<close>, a new array without the first \<open>k\<close>
  entries; \<open>pushWindow x\<close> is \<^verbatim>\<open>sentenceIndices.push(x)\<close>, which writes in place and, in
  the source, always ends a shift.
\<close>

definition window :: "(index list, 'w) prog" where
  "window s =
     (if sentenceIndices s < length (heap s)
      then (Value (heap s ! sentenceIndices s), s)
      else (Threw (Thrown ''TypeError''), s))"

definition sliceWindow :: "nat \<Rightarrow> (unit, 'w) prog" where
  "sliceWindow k s =
     (if sentenceIndices s < length (heap s)
      then (Value (), s\<lparr>heap := heap s @ [drop k (heap s ! sentenceIndices s)],
                         sentenceIndices := length (heap s)\<rparr>)
      else (Threw (Thrown ''TypeError''), s))"

definition pushWindow :: "index \<Rightarrow> (unit, 'w) prog" where
  "pushWindow x s =
     (if sentenceIndices s < length (heap s)
      then (let w = heap s ! sentenceIndices s @ [x]
            in (Value (), s\<lparr>heap := (heap s)[sentenceIndices s := w],
                              history := history s @ [(world s, Window w)]\<rparr>))
      else (Threw (Thrown ''TypeError''), s))"

subsection \<open>The inner loop\<close>

text \<open>
  \<^verbatim>\<open>
  const inputBuffer = new tf.TensorBuffer([1, sampleLen, charSetSize]);
  for (let j = 0; j < sampleLen; ++j) {
    inputBuffer.set(1, 0, j, sentenceIndices[j]);
  }
  const input = inputBuffer.toTensor();
  \<close>
\<close>

definition encodeWindow :: "('t, 'b, 'w) engine \<Rightarrow> nat \<Rightarrow> nat \<Rightarrow> index list \<Rightarrow> 't" where
  "encodeWindow tf len vocab win =
     tf_toTensor tf
       (fold (\<lambda>j inputBuffer. tf_set tf inputBuffer (Finite 1) [Some 0, Some (int j), element win j])
          [0..<len]
          (tf_buffer tf [1, len, vocab]))"

text \<open>\<^verbatim>\<open>if (onTextGenerationChar != null) { await onTextGenerationChar(winnerChar); }\<close>\<close>

definition notify :: "'w callback \<Rightarrow> string \<Rightarrow> (unit, 'w) prog" where
  "notify onTextGenerationChar winnerChar =
     (case onTextGenerationChar of
        None \<Rightarrow> unit ()
      | Some f \<Rightarrow>
          andThen (emit (OnChar winnerChar)) (\<lambda>_.
          andThen (call (f winnerChar)) (\<lambda>_.
          emit (Completed winnerChar))))"

text \<open>
  The body of the \<^verbatim>\<open>do ... while\<close> loop (lines 53 to 79); its value is \<^verbatim>\<open>winnerChar\<close>.
  \<^verbatim>\<open>
  const output = model.predict(input);
  const winnerIndex = sample(tf.squeeze(output), temperature);
  winnerChar = textData.getFromCharSet(winnerIndex);
  if (onTextGenerationChar != null) {
    await onTextGenerationChar(winnerChar);
  }
  generated += winnerChar;
  sentenceIndices = sentenceIndices.slice(1);
  sentenceIndices.push(winnerIndex);
  \<close>
\<close>

definition iteration ::
  "('t, 'b, 'w) engine \<Rightarrow> ('t, 'w) model \<Rightarrow> 'w textData \<Rightarrow> number \<Rightarrow> 'w callback \<Rightarrow>
   (string, 'w) prog" where
  "iteration tf model textData temperature onTextGenerationChar =
     andThen window (\<lambda>win.
     andThen (emit Predict) (\<lambda>_.
     andThen (call (predict model (encodeWindow tf (sampleLen model) (charSetSize model) win))) (\<lambda>output.
     andThen (call (sample tf (tf_squeeze tf output) temperature)) (\<lambda>winnerIndex.
     andThen (call (getFromCharSet textData winnerIndex)) (\<lambda>winnerChar.
     andThen (emit (Sampled winnerIndex winnerChar)) (\<lambda>_.
     andThen (notify onTextGenerationChar winnerChar) (\<lambda>_.
     andThen (appendText winnerChar) (\<lambda>_.
     andThen (sliceWindow 1) (\<lambda>_.
     andThen (pushWindow winnerIndex) (\<lambda>_.
     unit winnerChar))))))))))"

text \<open>
  \<^verbatim>\<open>/\s/.test(winnerChar)\<close>: some character of the string is white space.  A character
  is a byte here, so the class \<^verbatim>\<open>\s\<close> is its part below 256: tab, line feed, vertical
  tab, form feed, carriage return, space and the no-break space.
\<close>

definition isWhiteSpace :: "char \<Rightarrow> bool" where
  "isWhiteSpace c =
     (c = CHR 0x09 \<or> c = CHR 0x0A \<or> c = CHR 0x0B \<or> c = CHR 0x0C \<or> c = CHR 0x0D \<or>
      c = CHR 0x20 \<or> c = CHR 0xA0)"

definition hasWhiteSpace :: "string \<Rightarrow> bool" where
  "hasWhiteSpace str = list_ex isWhiteSpace str"

text \<open>
  \<^verbatim>\<open>do { ... } while (/\s/.test(winnerChar) === false);\<close>

  The loop runs for as long as the model generates no white space, which may be for
  ever.  \<open>fuel\<close> bounds the number of iterations: the loop that would go on after
  \<open>fuel\<close> iterations ends with \<open>OutOfFuel\<close>.
\<close>

fun wordLoop ::
  "nat \<Rightarrow> ('t, 'b, 'w) engine \<Rightarrow> ('t, 'w) model \<Rightarrow> 'w textData \<Rightarrow> number \<Rightarrow> 'w callback \<Rightarrow>
   (unit, 'w) prog" where
  "wordLoop 0 tf model textData temperature onTextGenerationChar s = (OutOfFuel, s)"
| "wordLoop (Suc fuel) tf model textData temperature onTextGenerationChar s =
     (case iteration tf model textData temperature onTextGenerationChar s of
        (Value winnerChar, s') \<Rightarrow>
          if hasWhiteSpace winnerChar = False
          then wordLoop fuel tf model textData temperature onTextGenerationChar s'
          else (Value (), s')
      | (Threw e, s') \<Rightarrow> (Threw e, s')
      | (OutOfFuel, s') \<Rightarrow> (OutOfFuel, s'))"

subsection \<open>The loop over the initial letters\<close>

text \<open>
  The statements of the \<^verbatim>\<open>for\<close> loop's body before the inner loop (lines 46 to 49), for
  the letter \<^verbatim>\<open>initialLetters[i]\<close>.  The receiver of \<^verbatim>\<open>push\<close> is evaluated before its
  argument, so the encoder is called between the \<^verbatim>\<open>slice\<close> and the \<^verbatim>\<open>push\<close>.
  \<^verbatim>\<open>
  if (i > 0) generated += " ";
  generated += initialLetters[i];
  sentenceIndices = sentenceIndices.slice(1);
  sentenceIndices.push(textData.textToIndices(initialLetters[i])[0]);
  \<close>
\<close>

definition seedLetter :: "'w textData \<Rightarrow> nat \<Rightarrow> string \<Rightarrow> (unit, 'w) prog" where
  "seedLetter textData i letter =
     andThen (if i > 0 then appendText '' '' else unit ()) (\<lambda>_.
     andThen (appendText letter) (\<lambda>_.
     andThen (sliceWindow 1) (\<lambda>_.
     andThen (call (textToIndices textData letter)) (\<lambda>indices.
     andThen (emit (Encoded letter (first indices))) (\<lambda>_.
     pushWindow (first indices))))))"

text \<open>
  \<^verbatim>\<open>for (let i = 0; i < initialLetters.length; i++) { ... }\<close>, from \<open>i\<close> on: the second
  list holds \<^verbatim>\<open>initialLetters[i]\<close>, \<^verbatim>\<open>initialLetters[i + 1]\<close>, and so on.
\<close>

fun letterLoop ::
  "nat \<Rightarrow> ('t, 'b, 'w) engine \<Rightarrow> ('t, 'w) model \<Rightarrow> 'w textData \<Rightarrow> number \<Rightarrow> 'w callback \<Rightarrow>
   nat \<Rightarrow> string list \<Rightarrow> (unit, 'w) prog" where
  "letterLoop fuel tf model textData temperature onTextGenerationChar i [] s = (Value (), s)"
| "letterLoop fuel tf model textData temperature onTextGenerationChar i (letter # letters) s =
     (case seedLetter textData i letter s of
        (Value _, s1) \<Rightarrow>
          (case wordLoop fuel tf model textData temperature onTextGenerationChar s1 of
             (Value _, s2) \<Rightarrow>
               letterLoop fuel tf model textData temperature onTextGenerationChar (Suc i) letters s2
           | (Threw e, s2) \<Rightarrow> (Threw e, s2)
           | (OutOfFuel, s2) \<Rightarrow> (OutOfFuel, s2))
      | (Threw e, s1) \<Rightarrow> (Threw e, s1)
      | (OutOfFuel, s1) \<Rightarrow> (OutOfFuel, s1))"

subsection \<open>The function\<close>

text \<open>
  The caller's array \<^verbatim>\<open>sentenceIndices\<close> is the one array of the store when the call
  starts, at reference 0, and holds \<open>seed\<close>; the parameter \<^verbatim>\<open>sentenceIndices\<close> is that
  reference.  \<open>initialLetters\<close> is the sequence \<^verbatim>\<open>initialLetters[0]\<close>, ... of strings (the
  characters of a string, or the entries of an array).  The result is the value returned
  and the state the call ends in.
  \<^verbatim>\<open>
  sentenceIndices = sentenceIndices.slice();
  let generated = '';
  for (...) { ... }
  return generated;
  \<close>
\<close>

definition callerArray :: nat where
  "callerArray = 0"

definition enter :: "index list \<Rightarrow> 'w \<Rightarrow> 'w state" where
  "enter seed w =
     \<lparr>world = w, heap = [seed], sentenceIndices = callerArray, generated = [], history = []\<rparr>"

definition generateText ::
  "nat \<Rightarrow> ('t, 'b, 'w) engine \<Rightarrow> ('t, 'w) model \<Rightarrow> 'w textData \<Rightarrow> index list \<Rightarrow> string list \<Rightarrow>
   number \<Rightarrow> 'w callback \<Rightarrow> 'w \<Rightarrow> string result \<times> 'w state" where
  "generateText fuel tf model textData seed initialLetters temperature onTextGenerationChar w =
     andThen (sliceWindow 0) (\<lambda>_.
     andThen (letterLoop fuel tf model textData temperature onTextGenerationChar 0 initialLetters) (\<lambda>_.
     (\<lambda>s. (Value (generated s), s))))
       (enter seed w)"

section \<open>What the log shows\<close>

text \<open>
  Readings of the log: the successive contents of the window, the characters generated
  with their indices, the generated characters alone, and the characters the callback
  was called on.
\<close>

fun windows :: "event list \<Rightarrow> index list list" where
  "windows [] = []"
| "windows (Window w # es) = w # windows es"
| "windows (e # es) = windows es"

fun sampled :: "event list \<Rightarrow> (index \<times> string) list" where
  "sampled [] = []"
| "sampled (Sampled i c # es) = (i, c) # sampled es"
| "sampled (e # es) = sampled es"

definition chars :: "event list \<Rightarrow> string list" where
  "chars t = map snd (sampled t)"

fun called :: "event list \<Rightarrow> string list" where
  "called [] = []"
| "called (OnChar c # es) = c # called es"
| "called (e # es) = called es"

text \<open>
  The shifts of the window, read along the log.  \<open>Shifting cur newest\<close>: the window
  holds \<open>cur\<close>, and \<open>newest\<close> is the index obtained since the last shift (the index of an
  initial letter, or \<^verbatim>\<open>winnerIndex\<close>), if there is one.  A shift must give the window
  without its oldest entry followed by that index; any other shift leads to \<open>Broken\<close>.
  \<open>shiftsNewest seed t\<close>: from the window \<open>seed\<close>, every shift of the log \<open>t\<close> is of this
  kind.  \<open>constantLength seed ws\<close>: every window of \<open>ws\<close> has the length of \<open>seed\<close>.
\<close>

datatype shifting = Shifting "index list" "index option" | Broken

fun shiftStep :: "shifting \<Rightarrow> event \<Rightarrow> shifting" where
  "shiftStep Broken e = Broken"
| "shiftStep (Shifting cur newest) (Sampled i c) = Shifting cur (Some i)"
| "shiftStep (Shifting cur newest) (Encoded letter x) = Shifting cur (Some x)"
| "shiftStep (Shifting cur newest) (Window w) =
     (case newest of
        None \<Rightarrow> Broken
      | Some x \<Rightarrow> if w = drop 1 cur @ [x] then Shifting w None else Broken)"
| "shiftStep (Shifting cur newest) e = Shifting cur newest"

definition shiftsNewest :: "index list \<Rightarrow> event list \<Rightarrow> bool" where
  "shiftsNewest seed t = (foldl shiftStep (Shifting seed None) t \<noteq> Broken)"

definition constantLength :: "index list \<Rightarrow> index list list \<Rightarrow> bool" where
  "constantLength seed ws = list_all (\<lambda>w. length w = length seed) ws"

text \<open>
  \<open>callFollowsAppend\<close>: when \<open>OnChar c\<close> is called, \<open>c\<close> is among the strings appended
  since the character was generated (the first argument collects them).
\<close>

fun callFollowsAppend :: "string list \<Rightarrow> event list \<Rightarrow> bool" where
  "callFollowsAppend appended [] = True"
| "callFollowsAppend appended (Sampled i c # es) = callFollowsAppend [] es"
| "callFollowsAppend appended (Append str # es) = callFollowsAppend (appended @ [str]) es"
| "callFollowsAppend appended (OnChar c # es) =
     (c \<in> set appended \<and> callFollowsAppend appended es)"
| "callFollowsAppend appended (e # es) = callFollowsAppend appended es"

text \<open>
  The course of the callback \<open>f\<close>, read along the log with its worlds.  The phases:
  nothing is going on (\<open>Idle\<close>); a prediction is under way; the character \<open>c\<close> is drawn;
  the callback is being called on \<open>c\<close>, from the world \<open>w\<close>; the call on \<open>c\<close> is over and
  has left the world \<open>w'\<close>.  Any event that a phase does not allow leads to \<open>Bad\<close>.

  \<open>orderStep\<close> follows a generated character to its append: the character drawn is
  handed to the callback at once; the only event after the start of the call is its
  completion, in the world that \<open>f\<close> gives from the world of the start; the only event
  after the completion is the append of that character, in the world the call has left.

  \<open>callStep\<close> follows the calls of the collaborators: a prediction, the draw of a
  character, the call of the callback on it and the completion of that call, with no
  prediction and no draw before the completion.

  \<open>restful\<close> are the phases in which a call may end when a collaborator has thrown: in
  the phase \<open>Calling c w\<close> the callback has thrown.  \<open>ended f r p\<close>: the phase \<open>p\<close> is one
  in which a call with the outcome \<open>r\<close> may end.
\<close>

datatype 'w phase =
  Idle
| Predicting
| Drawn string
| Calling string 'w
| Resolved string 'w
| Bad

fun orderStep ::
  "(string \<Rightarrow> 'w \<Rightarrow> (error + unit) \<times> 'w) \<Rightarrow> 'w phase \<Rightarrow> 'w \<times> event \<Rightarrow> 'w phase" where
  "orderStep f Idle (w, Sampled i c) = Drawn c"
| "orderStep f Idle (w, OnChar c) = Bad"
| "orderStep f Idle (w, Completed c) = Bad"
| "orderStep f Idle (w, e) = Idle"
| "orderStep f (Drawn c) (w, OnChar c') = (if c' = c then Calling c w else Bad)"
| "orderStep f (Calling c w) (w', Completed c') =
     (if c' = c \<and> f c w = (Inr (), w') then Resolved c w' else Bad)"
| "orderStep f (Resolved c w') (w'', Append str) = (if str = c \<and> w'' = w' then Idle else Bad)"
| "orderStep f p e = Bad"


fun restful :: "(string \<Rightarrow> 'w \<Rightarrow> (error + unit) \<times> 'w) \<Rightarrow> 'w phase \<Rightarrow> bool" where
  "restful f Idle = True"
| "restful f Predicting = True"
| "restful f (Calling c w) = (case fst (f c w) of Inl e \<Rightarrow> True | Inr u \<Rightarrow> False)"
| "restful f p = False"

fun ended ::
  "(string \<Rightarrow> 'w \<Rightarrow> (error + unit) \<times> 'w) \<Rightarrow> 'a result \<Rightarrow> 'w phase \<Rightarrow> bool" where
  "ended f (Value x) p = (p = Idle)"
| "ended f r p = restful f p"

text \<open>
  \<open>oneSpaceApart a b str\<close>: \<open>str\<close> starts with \<open>a\<close>, and \<open>b\<close> stands somewhere after it
  with exactly one space character between the two.
\<close>

definition oneSpaceApart :: "string \<Rightarrow> string \<Rightarrow> string \<Rightarrow> bool" where
  "oneSpaceApart a b str =
     list_ex (\<lambda>k. take (length a) str = a \<and> take (length b) (drop k str) = b \<and>
                  count_list (take (k - length a) (drop (length a) str)) CHR '' '' = 1)
       [length a..<Suc (length str)]"

subsection \<open>Invariants\<close>

text \<open>
  \<open>ensures K E out\<close>: the outcome \<open>out\<close> ends in a state with \<open>K\<close> when it ends with a
  value and in a state with \<open>E\<close> when it does not.  \<open>keeps K E m\<close>: from a state with
  \<open>K\<close>, \<open>m\<close> ends so.  \<open>started seed w\<close> is the state after the copy of line 42.
\<close>

definition ensures ::
  "('w state \<Rightarrow> bool) \<Rightarrow> ('w state \<Rightarrow> bool) \<Rightarrow> 'a result \<times> 'w state \<Rightarrow> bool" where
  "ensures K E out =
     (case out of
        (Value x, s) \<Rightarrow> K s
      | (Threw e, s) \<Rightarrow> E s
      | (OutOfFuel, s) \<Rightarrow> E s)"

definition keeps :: "('w state \<Rightarrow> bool) \<Rightarrow> ('w state \<Rightarrow> bool) \<Rightarrow> ('a, 'w) prog \<Rightarrow> bool" where
  "keeps K E m = (\<forall>s. K s \<longrightarrow> ensures K E (m s))"

definition started :: "index list \<Rightarrow> 'w \<Rightarrow> 'w state" where
  "started seed w =
     \<lparr>world = w, heap = [seed, seed], sentenceIndices = 1, generated = [], history = []\<rparr>"

text \<open>
  What a step adds to the log: an iteration of the inner loop that ends with a value
  (the worlds are those of the prediction, of the draw and of the append), and the
  statements ahead of the inner loop.
\<close>

definition callBlock :: "'w callback \<Rightarrow> string \<Rightarrow> 'w \<Rightarrow> 'w \<Rightarrow> ('w \<times> event) list" where
  "callBlock cb c w w' =
     (case cb of None \<Rightarrow> [] | Some f \<Rightarrow> [(w, OnChar c), (w', Completed c)])"

definition iterationBlock ::
  "'w callback \<Rightarrow> index \<Rightarrow> string \<Rightarrow> index list \<Rightarrow> 'w \<Rightarrow> 'w \<Rightarrow> 'w \<Rightarrow> ('w \<times> event) list" where
  "iterationBlock cb i c win w0 w w' =
     [(w0, Predict), (w, Sampled i c)] @ callBlock cb c w w' @
     [(w', Append c), (w', Window (drop 1 win @ [i]))]"

definition separator :: "nat \<Rightarrow> string list" where
  "separator i = (if i > 0 then ['' ''] else [])"

definition letterBlock ::
  "nat \<Rightarrow> string \<Rightarrow> index \<Rightarrow> index list \<Rightarrow> 'w \<Rightarrow> 'w \<Rightarrow> ('w \<times> event) list" where
  "letterBlock i letter x win w w' =
     map (\<lambda>str. (w, Append str)) (separator i) @
     [(w, Append letter), (w', Encoded letter x), (w', Window (drop 1 win @ [x]))]"

text \<open>
  The caller's array is in the store with the contents \<open>seed\<close>, and the variable
  \<^verbatim>\<open>sentenceIndices\<close> refers to a later array.
\<close>

definition untouched :: "index list \<Rightarrow> 'w state \<Rightarrow> bool" where
  "untouched seed s =
     (callerArray < length (heap s) \<and> heap s ! callerArray = seed \<and>
      callerArray < sentenceIndices s)"

text \<open>
  The shifts of the log are of the right kind and have led to the array that the
  variable \<^verbatim>\<open>sentenceIndices\<close> refers to, which has the length of the seed as every
  window of the log has; and what is left of that when a step has not ended with a
  value.
\<close>

definition shifted :: "index list \<Rightarrow> 'w state \<Rightarrow> bool" where
  "shifted seed s =
     (sentenceIndices s < length (heap s) \<and>
      foldl shiftStep (Shifting seed None) (trace s) =
        Shifting (heap s ! sentenceIndices s) None \<and>
      length (heap s ! sentenceIndices s) = length seed \<and>
      constantLength seed (windows (trace s)))"

definition shiftedSoFar :: "index list \<Rightarrow> 'w state \<Rightarrow> bool" where
  "shiftedSoFar seed s =
     (shiftsNewest seed (trace s) \<and> constantLength seed (windows (trace s)))"

section \<open>The engine of the spec\<close>

text \<open>
  The code of \<^verbatim>\<open>tf.log\<close>, \<^verbatim>\<open>tf.div\<close> and \<^verbatim>\<open>tf.multinomial\<close> is not in the repository.
  This section models the three from the words of the spec, on tensors of rank one that
  are lists of numbers.  The arithmetic is that of the special values of a double
  (\<^verbatim>\<open>NaN\<close> and the infinities; zero is the positive zero), exact on the finite numbers:
  rounding is left out.
\<close>

text \<open>
  Modelled from the spec: the logarithm of \<^verbatim>\<open>tf.log\<close> on one entry, which is missing from
  the repository.  ``\<^verbatim>\<open>log(0) = -infinity\<close>''; the logarithm of a negative number is
  \<^verbatim>\<open>NaN\<close>.
\<close>

fun num_log :: "number \<Rightarrow> number" where
  "num_log NaN = NaN"
| "num_log NegInfinity = NaN"
| "num_log Infinity = Infinity"
| "num_log (Finite x) =
     (if x < 0 then NaN else if x = 0 then NegInfinity else Finite (ln x))"

text \<open>
  Modelled from the spec: the division of \<^verbatim>\<open>tf.div\<close> on one entry, which is missing from
  the repository.  ``the resulting logit is \<^verbatim>\<open>-infinity\<close>'': an infinity divided by a
  finite number is an infinity.
\<close>

fun num_div :: "number \<Rightarrow> number \<Rightarrow> number" where
  "num_div NaN b = NaN"
| "num_div a NaN = NaN"
| "num_div (Finite x) (Finite y) =
     (if y = 0 then (if x = 0 then NaN else if 0 < x then Infinity else NegInfinity)
      else Finite (x / y))"
| "num_div (Finite x) b = Finite 0"
| "num_div Infinity (Finite y) = (if y < 0 then NegInfinity else Infinity)"
| "num_div NegInfinity (Finite y) = (if y < 0 then Infinity else NegInfinity)"
| "num_div a b = NaN"

text \<open>
  Modelled from the spec: the exponential inside \<^verbatim>\<open>tf.multinomial\<close>, which is missing
  from the repository.  It turns a logit, an ``unnormalized log-probability'', into a
  likelihood; that of \<^verbatim>\<open>-infinity\<close> is 0, ``zero sampling probability''.
\<close>

fun num_exp :: "number \<Rightarrow> number" where
  "num_exp NaN = NaN"
| "num_exp NegInfinity = Finite 0"
| "num_exp Infinity = Infinity"
| "num_exp (Finite x) = Finite (exp x)"

text \<open>
  Modelled from the spec: the addition inside \<^verbatim>\<open>tf.multinomial\<close>, which is missing from
  the repository, for the cumulative sums of the ``softmax-equivalent sampling
  procedure''.
\<close>

fun num_add :: "number \<Rightarrow> number \<Rightarrow> number" where
  "num_add NaN b = NaN"
| "num_add a NaN = NaN"
| "num_add (Finite x) (Finite y) = Finite (x + y)"
| "num_add Infinity NegInfinity = NaN"
| "num_add NegInfinity Infinity = NaN"
| "num_add (Finite x) b = b"
| "num_add a b = a"

text \<open>
  Modelled from the spec: the comparison inside \<^verbatim>\<open>tf.multinomial\<close>, which is missing
  from the repository, of the random number with a cumulative sum; a comparison with
  \<^verbatim>\<open>NaN\<close> is false.
\<close>

fun num_less :: "number \<Rightarrow> number \<Rightarrow> bool" where
  "num_less NaN b = False"
| "num_less a NaN = False"
| "num_less (Finite x) (Finite y) = (x < y)"
| "num_less NegInfinity NegInfinity = False"
| "num_less NegInfinity b = True"
| "num_less a Infinity = (a \<noteq> Infinity)"
| "num_less a b = False"

text \<open>
  Modelled from the spec: the normalization inside \<^verbatim>\<open>tf.multinomial\<close>, which is missing
  from the repository.  ``a softmax-equivalent sampling procedure'': each likelihood
  divided by the sum of all.
\<close>

definition softmax :: "number list \<Rightarrow> number list" where
  "softmax logits =
     (let likelihoods = map num_exp logits;
          total = foldl num_add (Finite 0) likelihoods
      in map (\<lambda>l. num_div l total) likelihoods)"

text \<open>
  Modelled from the spec: the draw of one index inside \<^verbatim>\<open>tf.multinomial\<close>, which is
  missing from the repository.  ``draw one index from the categorical distribution'':
  along the cumulative sums of the probabilities, the first index whose sum exceeds the
  random number \<open>r\<close>; the last index when none does.  \<open>acc\<close> is the sum so far and \<open>k\<close>
  the index of the first probability of the list.
\<close>

fun pick :: "number list \<Rightarrow> number \<Rightarrow> number \<Rightarrow> nat \<Rightarrow> nat" where
  "pick [] acc r k = k"
| "pick [p] acc r k = k"
| "pick (p # q # ps) acc r k =
     (if num_less r (num_add acc p) then k
      else pick (q # ps) (num_add acc p) r (Suc k))"

text \<open>
  Modelled from the spec: \<^verbatim>\<open>tf.multinomial(logits, numSamples, seed, normalized)\<close> with
  \<^verbatim>\<open>dataSync()\<close>, which is missing from the repository.  The random numbers are those of
  \<open>random\<close>, ``an explicit, injectable random-number source'': from the seed or, without
  one, from the global source in the world, it gives the numbers of one generator and
  the world after.  The logits are normalized unless \<open>normalized\<close> says that they are
  probabilities, and each sample is drawn on the next random number.  With no outcome
  to draw from, the draw raises.
\<close>

type_synonym 'w random = "number option \<Rightarrow> 'w \<Rightarrow> (nat \<Rightarrow> real) \<times> 'w"

definition specMultinomial ::
  "'w random \<Rightarrow> number list \<Rightarrow> nat \<Rightarrow> number option \<Rightarrow> bool \<Rightarrow> 'w \<Rightarrow> (error + int list) \<times> 'w" where
  "specMultinomial random logits numSamples seed normalized w =
     (if logits = [] then (Inl (Thrown ''multinomial: no outcomes''), w)
      else
        (let probabilities = (if normalized then logits else softmax logits)
         in case random seed w of
              (rs, w') \<Rightarrow>
                (Inr (map (\<lambda>j. int (pick probabilities (Finite 0) (Finite (rs j)) 0))
                        [0..<numSamples]),
                 w')))"

text \<open>
  Modelled from the spec: an engine whose \<^verbatim>\<open>tf.log\<close> and \<^verbatim>\<open>tf.div\<close> work entry by entry
  (``\<^verbatim>\<open>logits[i] = log(probs[i]) / max(temperature, 1e-6)\<close> for every vocabulary index
  \<^verbatim>\<open>i\<close>'') and whose \<^verbatim>\<open>tf.multinomial\<close> is the draw above; the code of the three is
  missing from the repository.  The other operations are those of \<open>tf\<close>.
\<close>

definition specMath ::
  "'w random \<Rightarrow> (number list, 'b, 'w) engine \<Rightarrow> (number list, 'b, 'w) engine" where
  "specMath random tf =
     tf\<lparr>tf_log := map num_log,
        tf_div := (\<lambda>t d. map (\<lambda>x. num_div x d) t),
        tf_multinomial := specMultinomial random\<rparr>"

text \<open>
  Modelled from the spec: the likelihood of an outcome in ``the categorical
  distribution implied by treating logits as unnormalized log-probabilities'', which
  the missing \<^verbatim>\<open>tf.multinomial\<close> draws from: the exponential of its logit, as a real
  number, and 0 for the logit \<^verbatim>\<open>-infinity\<close>.  The distribution is that of logits that
  are finite or \<^verbatim>\<open>-infinity\<close>; for the other logits the likelihood is no real number,
  and 0 stands for it.
\<close>

fun weight :: "number \<Rightarrow> real" where
  "weight (Finite x) = exp x"
| "weight l = 0"

text \<open>
  Modelled from the spec: a draw from that distribution, which the missing
  \<^verbatim>\<open>tf.multinomial\<close> makes.  The probability of an outcome is its share of the sum of
  the likelihoods.  \<open>drawnFrom logits r k\<close>: the outcome \<open>k\<close> is the one that the random
  number \<open>r\<close> of \<open>[0, 1)\<close> falls on, when the outcomes lie side by side in \<open>[0, 1)\<close>,
  each as long as its probability.
\<close>

definition drawnFrom :: "number list \<Rightarrow> real \<Rightarrow> nat \<Rightarrow> bool" where
  "drawnFrom logits r k =
     (k < length logits \<and>
      sum_list (map weight (take k logits)) \<le> r * sum_list (map weight logits) \<and>
      r * sum_list (map weight logits) < sum_list (map weight (take (Suc k) logits)))"

text \<open>
  The entries of a vector of probabilities as the model predicts them: finite and not
  negative; and the positive ones.
\<close>

fun likelihood :: "number \<Rightarrow> bool" where
  "likelihood (Finite x) = (0 \<le> x)"
| "likelihood p = False"

fun positive :: "number \<Rightarrow> bool" where
  "positive (Finite x) = (0 < x)"
| "positive p = False"

section \<open>A scripted run\<close>

text \<open>
  Collaborators to run the functions on.  The world is the list of the draws still to
  come from the engine's random source, and the list of the characters the callback has
  shown.  The engine keeps a tensor as the expression that made it; the model returns
  its input; the character set is \<open>'' hiw''\<close> and the encoder follows \<^verbatim>\<open>indexOf\<close> and
  indexing (\<^verbatim>\<open>-1\<close> and \<^verbatim>\<open>undefined\<close> out of range).
\<close>

datatype tensor =
  OneHot "index list list"
| Predicted tensor
| Squeezed tensor
| Log tensor
| Div tensor number

type_synonym demoWorld = "int list \<times> string list"

fun indexOf :: "string \<Rightarrow> char \<Rightarrow> int" where
  "indexOf [] c = - 1"
| "indexOf (x # xs) c =
     (if x = c then 0 else (let k = indexOf xs c in if k < 0 then - 1 else k + 1))"

definition demoCharSet :: string where
  "demoCharSet = '' hiw''"

definition demoText :: "demoWorld textData" where
  "demoText =
     \<lparr>textToIndices = (\<lambda>str w. (Inr (map (indexOf demoCharSet) str), w)),
      getFromCharSet = (\<lambda>i w.
        case i of
          Some k \<Rightarrow>
            if 0 \<le> k \<and> nat k < length demoCharSet
            then (Inr [demoCharSet ! nat k], w)
            else (Inr ''undefined'', w)
        | None \<Rightarrow> (Inr ''undefined'', w))\<rparr>"

definition demoEngine :: "(tensor, index list list, demoWorld) engine" where
  "demoEngine =
     \<lparr>tf_log = Log, tf_div = Div, tf_squeeze = Squeezed,
      tf_multinomial = (\<lambda>logits numSamples seed normalized w.
        case fst w of
          [] \<Rightarrow> (Inl (Thrown ''no draw''), w)
        | d # ds \<Rightarrow> (Inr [d], (ds, snd w))),
      tf_buffer = (\<lambda>shape. []),
      tf_set = (\<lambda>b v locs. b @ [locs]),
      tf_toTensor = OneHot\<rparr>"

definition demoModel :: "(tensor, demoWorld) model" where
  "demoModel = \<lparr>sampleLen = 2, charSetSize = 4, predict = (\<lambda>input w. (Inr (Predicted input), w))\<rparr>"

definition demoShow :: "string \<Rightarrow> demoWorld \<Rightarrow> (error + unit) \<times> demoWorld" where
  "demoShow c w = (Inr (), (fst w, snd w @ [c]))"

definition demoCallback :: "demoWorld callback" where
  "demoCallback = Some demoShow"

text \<open>
  For the engine of the spec: a random source that gives one half each time and leaves
  the world (which is nothing) as it is, and the operations that \<open>sample\<close> does not use.
\<close>

definition half :: "unit random" where
  "half seed w = (\<lambda>j. 1 / 2, w)"

definition bareEngine :: "(number list, unit, unit) engine" where
  "bareEngine =
     \<lparr>tf_log = (\<lambda>t. t), tf_div = (\<lambda>t d. t), tf_squeeze = (\<lambda>t. t),
      tf_multinomial = (\<lambda>logits numSamples seed normalized w. (Inr [], w)),
      tf_buffer = (\<lambda>shape. ()),
      tf_set = (\<lambda>b v locs. b),
      tf_toTensor = (\<lambda>b. [])\<rparr>"

text \<open>
  The run of the scripted collaborators that the sections below look at: the seed
  \<open>[1, 2]\<close>, the initial letters \<open>h\<close> and \<open>w\<close> and the draws 2, 0, 0, with the callback
  and the temperature 1.
\<close>

abbreviation demoRun :: "string result \<times> demoWorld state" where
  "demoRun \<equiv>
     generateText 5 demoEngine demoModel demoText [Some 1, Some 2] [''h'', ''w'']
       (Finite 1) demoCallback ([2, 0, 0], [])"
section \<open>Steps of the function\<close>

lemmas step_defs = andThen_def unit_def emit_def call_def appendText_def window_def
  sliceWindow_def pushWindow_def notify_def

lemma windows_append [simp]: "windows (xs @ ys) = windows xs @ windows ys"
  by (induction xs rule: windows.induct) simp_all

lemma sampled_append [simp]: "sampled (xs @ ys) = sampled xs @ sampled ys"
  by (induction xs rule: sampled.induct) simp_all

lemma chars_append [simp]: "chars (xs @ ys) = chars xs @ chars ys"
  by (simp add: chars_def)

lemma called_append [simp]: "called (xs @ ys) = called xs @ called ys"
  by (induction xs rule: called.induct) simp_all

lemma hasWhiteSpace_append [simp]:
  "hasWhiteSpace (xs @ ys) = (hasWhiteSpace xs \<or> hasWhiteSpace ys)"
  by (simp add: hasWhiteSpace_def list_ex_iff) blast

lemma trace_history: "history s' = history s @ block \<Longrightarrow> trace s' = trace s @ map snd block"
  by (simp add: trace_def)

text \<open>
  An iteration of the inner loop that ends with a value has shifted the window into a
  new array, appended the character, and logged its events in the order of the
  statements; with a callback \<open>f\<close>, the world in which it goes on is the one that \<open>f\<close>
  has made of the world in which the character was drawn.
\<close>

lemma iteration_Value:
  assumes "iteration tf model textData temperature cb s = (Value c, s')"
  shows "\<exists>i w. sentenceIndices s < length (heap s) \<and>
           heap s' = heap s @ [drop 1 (heap s ! sentenceIndices s) @ [i]] \<and>
           sentenceIndices s' = length (heap s) \<and>
           generated s' = generated s @ c \<and>
           history s' = history s @
             iterationBlock cb i c (heap s ! sentenceIndices s) (world s) w (world s') \<and>
           (\<forall>f. cb = Some f \<longrightarrow> f c w = (Inr (), world s'))"
  using assms unfolding iteration_def
  by (auto simp: step_defs iterationBlock_def callBlock_def Let_def nth_append
      split: prod.splits result.splits sum.splits option.splits if_splits)

text \<open>
  One that does not end with a value has stopped ahead of the prediction, in the
  prediction and the draw, or in the callback, which then has thrown.
\<close>

lemma iteration_fails:
  assumes "iteration tf model textData temperature cb s = (r, s')" and "\<And>c. r \<noteq> Value c"
  shows "history s' = history s \<or>
         history s' = history s @ [(world s, Predict)] \<or>
         (\<exists>i c w f e w'. cb = Some f \<and> f c w = (Inl e, w') \<and>
            history s' = history s @ [(world s, Predict), (w, Sampled i c), (w, OnChar c)])"
  using assms unfolding iteration_def
  by (auto simp: step_defs Let_def
      split: prod.splits result.splits sum.splits option.splits if_splits)

lemma seedLetter_Value:
  assumes "seedLetter textData i letter s = (Value u, s')"
  shows "\<exists>x. sentenceIndices s < length (heap s) \<and>
           heap s' = heap s @ [drop 1 (heap s ! sentenceIndices s) @ [x]] \<and>
           sentenceIndices s' = length (heap s) \<and>
           generated s' = generated s @ concat (separator i) @ letter \<and>
           history s' = history s @
             letterBlock i letter x (heap s ! sentenceIndices s) (world s) (world s')"
  using assms unfolding seedLetter_def
  by (auto simp: step_defs letterBlock_def separator_def Let_def nth_append
      split: prod.splits result.splits sum.splits option.splits if_splits)

lemma seedLetter_fails:
  assumes "seedLetter textData i letter s = (r, s')" and "\<And>u. r \<noteq> Value u"
  shows "history s' = history s @ map (\<lambda>str. (world s, Append str)) (separator i @ [letter])"
  using assms unfolding seedLetter_def
  by (auto simp: step_defs separator_def Let_def
      split: prod.splits result.splits sum.splits option.splits if_splits)

text \<open>The copy of line 42 always succeeds: the call goes on from \<open>started seed w\<close>.\<close>

lemma generateText_started:
  "generateText fuel tf model textData seed letters temperature cb w =
     (case letterLoop fuel tf model textData temperature cb 0 letters (started seed w) of
        (Value x, s) \<Rightarrow> (Value (generated s), s)
      | (Threw e, s) \<Rightarrow> (Threw e, s)
      | (OutOfFuel, s) \<Rightarrow> (OutOfFuel, s))"
  by (simp add: generateText_def andThen_def sliceWindow_def enter_def callerArray_def started_def
      split: prod.splits result.splits)

section \<open>The fuel\<close>

text \<open>
  The fuel is a bound and nothing else: a call that ends with a value or with a value
  thrown ends the same way, in the same state, on any larger amount of fuel.
\<close>

lemma wordLoop_more_fuel:
  assumes "wordLoop fuel tf model textData temperature cb s = (r, s')"
    and "r \<noteq> OutOfFuel" and "fuel \<le> fuel'"
  shows "wordLoop fuel' tf model textData temperature cb s = (r, s')"
  using assms
proof (induction fuel arbitrary: s fuel')
  case 0
  then show ?case by simp
next
  case (Suc fuel)
  from Suc.prems(3) obtain k where k: "fuel' = Suc k" and le: "fuel \<le> k"
    by (cases fuel') auto
  show ?case
  proof (cases "iteration tf model textData temperature cb s")
    case (Pair r1 s1)
    show ?thesis
    proof (cases r1)
      case (Value c)
      show ?thesis
      proof (cases "hasWhiteSpace c")
        case True
        with Suc.prems(1) Pair Value show ?thesis by (simp add: k)
      next
        case False
        with Suc.prems(1) Pair Value
        have "wordLoop fuel tf model textData temperature cb s1 = (r, s')" by simp
        from Suc.IH [OF this Suc.prems(2) le] Pair Value False show ?thesis by (simp add: k)
      qed
    next
      case (Threw e)
      with Suc.prems(1) Pair show ?thesis by (auto simp: k)
    next
      case OutOfFuel
      with Suc.prems(1,2) Pair show ?thesis by (auto simp: k)
    qed
  qed
qed

lemma letterLoop_more_fuel:
  assumes "letterLoop fuel tf model textData temperature cb i letters s = (r, s')"
    and "r \<noteq> OutOfFuel" and "fuel \<le> fuel'"
  shows "letterLoop fuel' tf model textData temperature cb i letters s = (r, s')"
  using assms
proof (induction letters arbitrary: i s)
  case Nil
  then show ?case by simp
next
  case (Cons letter letters)
  show ?case
  proof (cases "seedLetter textData i letter s")
    case sl: (Pair r1 s1)
    show ?thesis
    proof (cases r1)
      case v1: (Value u1)
      show ?thesis
      proof (cases "wordLoop fuel tf model textData temperature cb s1")
        case wl: (Pair r2 s2)
        show ?thesis
        proof (cases r2)
          case v2: (Value u2)
          with wl have "wordLoop fuel' tf model textData temperature cb s1 = (Value u2, s2)"
            using wordLoop_more_fuel [OF _ _ Cons.prems(3)] by blast
          moreover from Cons.prems(1) sl v1 wl v2
          have "letterLoop fuel tf model textData temperature cb (Suc i) letters s2 = (r, s')"
            by simp
          from Cons.IH [OF this Cons.prems(2,3)]
          have "letterLoop fuel' tf model textData temperature cb (Suc i) letters s2 = (r, s')" .
          ultimately show ?thesis using sl v1 by simp
        next
          case t2: (Threw e)
          with wl have "wordLoop fuel' tf model textData temperature cb s1 = (Threw e, s2)"
            using wordLoop_more_fuel [OF _ _ Cons.prems(3)] by blast
          with Cons.prems(1) sl v1 wl t2 show ?thesis by auto
        next
          case OutOfFuel
          with Cons.prems(1,2) sl v1 wl show ?thesis by auto
        qed
      qed
    next
      case (Threw e)
      with Cons.prems(1) sl show ?thesis by auto
    next
      case OutOfFuel
      with Cons.prems(1,2) sl show ?thesis by auto
    qed
  qed
qed

lemma generateText_more_fuel:
  assumes "generateText fuel tf model textData seed letters temperature cb w = (r, s)"
    and "r \<noteq> OutOfFuel" and "fuel \<le> fuel'"
  shows "generateText fuel' tf model textData seed letters temperature cb w = (r, s)"
proof (cases "letterLoop fuel tf model textData temperature cb 0 letters (started seed w)")
  case (Pair r1 s1)
  with assms(1,2) have "r1 \<noteq> OutOfFuel"
    by (auto simp: generateText_started split: result.splits)
  from letterLoop_more_fuel [OF Pair this assms(3)] Pair assms(1) show ?thesis
    by (simp add: generateText_started)
qed

section \<open>Invariants of the loops\<close>

lemma ensures_simps [simp]:
  "ensures K E (Value x, s) = K s"
  "ensures K E (Threw e, s) = E s"
  "ensures K E (OutOfFuel, s) = E s"
  by (simp_all add: ensures_def)

lemma keepsD: "keeps K E m \<Longrightarrow> K s \<Longrightarrow> ensures K E (m s)"
  by (simp add: keeps_def)

lemma keeps_returning:
  assumes "\<And>s x s'. K s \<Longrightarrow> m s = (Value x, s') \<Longrightarrow> K s'"
  shows "keeps K (\<lambda>s. True) m"
  unfolding keeps_def ensures_def using assms
  by (auto split: prod.splits result.splits)

lemma ensures_returned: "ensures K (\<lambda>s. True) out \<Longrightarrow> out = (Value x, s) \<Longrightarrow> K s"
  by simp

lemma keeps_wordLoop:
  assumes body: "keeps K E (iteration tf model textData temperature cb)"
    and KE: "\<And>s. K s \<Longrightarrow> E s"
  shows "keeps K E (wordLoop fuel tf model textData temperature cb)"
  unfolding keeps_def
proof (induction fuel)
  case 0
  show ?case by (simp add: KE)
next
  case (Suc fuel)
  show ?case
  proof (intro allI impI)
    fix s assume K: "K s"
    obtain r s1 where it: "iteration tf model textData temperature cb s = (r, s1)"
      by (cases "iteration tf model textData temperature cb s")
    from keepsD [OF body K] it have 1: "ensures K E (r, s1)" by simp
    show "ensures K E (wordLoop (Suc fuel) tf model textData temperature cb s)"
      using 1 Suc it by (cases r) auto
  qed
qed

lemma keeps_letterLoop:
  assumes seed: "\<And>i letter. keeps K E (seedLetter textData i letter)"
    and body: "keeps K E (iteration tf model textData temperature cb)"
    and KE: "\<And>s. K s \<Longrightarrow> E s"
  shows "keeps K E (letterLoop fuel tf model textData temperature cb i letters)"
  unfolding keeps_def
proof (induction letters arbitrary: i)
  case Nil
  show ?case by simp
next
  case (Cons letter letters)
  show ?case
  proof (intro allI impI)
    fix s assume K: "K s"
    obtain r1 s1 where sl: "seedLetter textData i letter s = (r1, s1)"
      by (cases "seedLetter textData i letter s")
    obtain r2 s2 where wl: "wordLoop fuel tf model textData temperature cb s1 = (r2, s2)"
      by (cases "wordLoop fuel tf model textData temperature cb s1")
    from keepsD [OF seed [of i letter] K] sl have 1: "ensures K E (r1, s1)" by simp
    have 2: "K s1 \<Longrightarrow> ensures K E (r2, s2)"
      using keepsD [OF keeps_wordLoop [OF body KE]] wl by metis
    show "ensures K E (letterLoop fuel tf model textData temperature cb i (letter # letters) s)"
      using 1 2 Cons sl wl by (cases r1; cases r2) auto
  qed
qed

lemma ensures_generateText:
  assumes seed: "\<And>i letter. keeps K E (seedLetter textData i letter)"
    and body: "keeps K E (iteration tf model textData temperature cb)"
    and KE: "\<And>s. K s \<Longrightarrow> E s"
    and start: "K (started seed w)"
  shows "ensures K E (generateText fuel tf model textData seed letters temperature cb w)"
proof -
  have "ensures K E (letterLoop fuel tf model textData temperature cb 0 letters (started seed w))"
    using keepsD [OF keeps_letterLoop [OF seed body KE] start] by auto
  then show ?thesis
    by (cases "letterLoop fuel tf model textData temperature cb 0 letters (started seed w)")
       (auto simp: generateText_started split: result.splits)
qed

subsection \<open>The caller's array\<close>

lemma untouched_iteration:
  "keeps (untouched seed) (untouched seed) (iteration tf model textData temperature cb)"
  unfolding keeps_def iteration_def
  by (auto simp: step_defs untouched_def callerArray_def Let_def nth_append
      split: prod.splits result.splits sum.splits option.splits)

lemma untouched_seedLetter:
  "keeps (untouched seed) (untouched seed) (seedLetter textData i letter)"
  unfolding keeps_def seedLetter_def
  by (auto simp: step_defs untouched_def callerArray_def Let_def nth_append
      split: prod.splits result.splits sum.splits option.splits)

lemma keepsI:
  assumes "\<And>s x s'. K s \<Longrightarrow> m s = (Value x, s') \<Longrightarrow> K s'"
    and "\<And>s r s'. K s \<Longrightarrow> m s = (r, s') \<Longrightarrow> (\<And>x. r \<noteq> Value x) \<Longrightarrow> E s'"
  shows "keeps K E m"
  unfolding keeps_def ensures_def
proof (intro allI impI)
  fix s assume K: "K s"
  obtain r s' where run: "m s = (r, s')" by (cases "m s")
  show "case m s of (Value x, s) \<Rightarrow> K s | (Threw e, s) \<Rightarrow> E s | (OutOfFuel, s) \<Rightarrow> E s"
    using assms(1) [OF K] assms(2) [OF K run] run by (cases r) auto
qed

subsection \<open>The window\<close>

lemma shiftStep_block:
  "foldl shiftStep (Shifting cur None) (map snd (iterationBlock cb i c cur w0 w w')) =
     Shifting (drop 1 cur @ [i]) None"
  by (simp add: iterationBlock_def callBlock_def split: option.splits)

lemma shiftStep_letter:
  "foldl shiftStep (Shifting cur None) (map snd (letterBlock i letter x cur w w')) =
     Shifting (drop 1 cur @ [x]) None"
  by (simp add: letterBlock_def separator_def)

lemma windows_block:
  "windows (map snd (iterationBlock cb i c cur w0 w w')) = [drop 1 cur @ [i]]"
  by (simp add: iterationBlock_def callBlock_def split: option.splits)

lemma windows_letter:
  "windows (map snd (letterBlock i letter x cur w w')) = [drop 1 cur @ [x]]"
  by (simp add: letterBlock_def separator_def)

lemma constantLength_snoc:
  "constantLength seed (ws @ [w]) = (constantLength seed ws \<and> length w = length seed)"
  by (simp add: constantLength_def)

text \<open>
  A step that ends with a value and has shifted the window by a block of the log keeps
  the shifts right; here \<open>block\<close> stands for the events of the step.
\<close>

lemma shifted_shift:
  assumes K: "shifted seed s" and seed: "seed \<noteq> []"
    and h: "heap s' = heap s @ [drop 1 (heap s ! sentenceIndices s) @ [x]]"
    and a: "sentenceIndices s' = length (heap s)"
    and t: "trace s' = trace s @ block"
    and f: "foldl shiftStep (Shifting (heap s ! sentenceIndices s) None) block =
              Shifting (drop 1 (heap s ! sentenceIndices s) @ [x]) None"
    and w: "windows block = [drop 1 (heap s ! sentenceIndices s) @ [x]]"
  shows "shifted seed s'"
proof -
  from K seed have "heap s ! sentenceIndices s \<noteq> []"
    and len: "length (heap s ! sentenceIndices s) = length seed"
    by (auto simp: shifted_def)
  then have "length (drop 1 (heap s ! sentenceIndices s) @ [x]) = length seed"
    by (cases "heap s ! sentenceIndices s") auto
  with K h a t f w show ?thesis
    by (simp add: shifted_def constantLength_snoc)
qed

lemma shiftedSoFar_fails:
  assumes K: "shifted seed s"
    and t: "trace s' = trace s @ block"
    and f: "foldl shiftStep (Shifting (heap s ! sentenceIndices s) None) block \<noteq> Broken"
    and w: "windows block = []"
  shows "shiftedSoFar seed s'"
  using assms by (simp add: shifted_def shiftedSoFar_def shiftsNewest_def)

lemma shifted_iteration:
  assumes "seed \<noteq> []"
  shows "keeps (shifted seed) (shiftedSoFar seed) (iteration tf model textData temperature cb)"
proof (rule keepsI)
  fix s c s'
  assume K: "shifted seed s"
    and run: "iteration tf model textData temperature cb s = (Value c, s')"
  from iteration_Value [OF run] obtain i w where
    h: "heap s' = heap s @ [drop 1 (heap s ! sentenceIndices s) @ [i]]" and
    a: "sentenceIndices s' = length (heap s)" and
    b: "history s' = history s @
          iterationBlock cb i c (heap s ! sentenceIndices s) (world s) w (world s')"
    by blast
  show "shifted seed s'"
    by (rule shifted_shift [OF K assms h a trace_history [OF b] shiftStep_block windows_block])
next
  fix s r s'
  assume K: "shifted seed s"
    and run: "iteration tf model textData temperature cb s = (r, s')"
    and r: "\<And>c. r \<noteq> Value c"
  from iteration_fails [OF run r] consider
    "history s' = history s @ []"
    | "history s' = history s @ [(world s, Predict)]"
    | i c w where "history s' = history s @ [(world s, Predict), (w, Sampled i c), (w, OnChar c)]"
    by auto
  then show "shiftedSoFar seed s'"
  proof cases
    case 1
    show ?thesis by (rule shiftedSoFar_fails [OF K trace_history [OF 1]]) simp_all
  next
    case 2
    show ?thesis by (rule shiftedSoFar_fails [OF K trace_history [OF 2]]) simp_all
  next
    case 3
    show ?thesis by (rule shiftedSoFar_fails [OF K trace_history [OF 3]]) simp_all
  qed
qed

lemma shifted_seedLetter:
  assumes "seed \<noteq> []"
  shows "keeps (shifted seed) (shiftedSoFar seed) (seedLetter textData i letter)"
proof (rule keepsI)
  fix s u s'
  assume K: "shifted seed s" and run: "seedLetter textData i letter s = (Value u, s')"
  from seedLetter_Value [OF run] obtain x where
    h: "heap s' = heap s @ [drop 1 (heap s ! sentenceIndices s) @ [x]]" and
    a: "sentenceIndices s' = length (heap s)" and
    b: "history s' = history s @
          letterBlock i letter x (heap s ! sentenceIndices s) (world s) (world s')"
    by blast
  show "shifted seed s'"
    by (rule shifted_shift [OF K assms h a trace_history [OF b] shiftStep_letter windows_letter])
next
  fix s r s'
  assume K: "shifted seed s"
    and run: "seedLetter textData i letter s = (r, s')"
    and r: "\<And>u. r \<noteq> Value u"
  show "shiftedSoFar seed s'"
    by (rule shiftedSoFar_fails [OF K trace_history [OF seedLetter_fails [OF run r]]])
       (simp_all add: separator_def)
qed

lemma shifted_shiftedSoFar: "shifted seed s \<Longrightarrow> shiftedSoFar seed s"
  by (simp add: shifted_def shiftedSoFar_def shiftsNewest_def)

subsection \<open>The callback\<close>

lemma orderStep_block:
  assumes "f c w = (Inr (), w')"
  shows "foldl (orderStep f) Idle (iterationBlock (Some f) i c cur w0 w w') = Idle"
  using assms by (simp add: iterationBlock_def callBlock_def)

lemma orderStep_letter: "foldl (orderStep f) Idle (letterBlock i letter x cur w w') = Idle"
  by (simp add: letterBlock_def separator_def)



text \<open>
  The two courses through the steps of the function: from \<open>Idle\<close>, a step that ends
  with a value leads back to \<open>Idle\<close>, and one that does not leads to a restful phase.
\<close>

lemma course_iteration:
  assumes block: "\<And>i c cur w0 w w'. f c w = (Inr (), w') \<Longrightarrow>
      foldl step Idle (iterationBlock (Some f) i c cur w0 w w') = Idle"
    and predict: "\<And>w0. restful f (step Idle (w0, Predict))"
    and calling: "\<And>w0 i c w.
      foldl step Idle [(w0, Predict), (w, Sampled i c), (w, OnChar c)] = Calling c w"
  shows "keeps (\<lambda>s. foldl step Idle (history s) = Idle)
           (\<lambda>s. restful f (foldl step Idle (history s)))
           (iteration tf model textData temperature (Some f))"
proof (rule keepsI)
  fix s c s'
  assume K: "foldl step Idle (history s) = Idle"
    and run: "iteration tf model textData temperature (Some f) s = (Value c, s')"
  from iteration_Value [OF run] obtain i w where
    b: "history s' = history s @
          iterationBlock (Some f) i c (heap s ! sentenceIndices s) (world s) w (world s')"
    and f: "f c w = (Inr (), world s')"
    by blast
  from K block [OF f] show "foldl step Idle (history s') = Idle"
    by (simp add: b)
next
  fix s r s'
  assume K: "foldl step Idle (history s) = Idle"
    and run: "iteration tf model textData temperature (Some f) s = (r, s')"
    and r: "\<And>c. r \<noteq> Value c"
  from iteration_fails [OF run r] consider
    "history s' = history s"
    | "history s' = history s @ [(world s, Predict)]"
    | i c w e w' where "f c w = (Inl e, w')"
        "history s' = history s @ [(world s, Predict), (w, Sampled i c), (w, OnChar c)]"
    by auto
  then show "restful f (foldl step Idle (history s'))"
  proof cases
    case 1
    with K show ?thesis by simp
  next
    case 2
    with K predict show ?thesis by simp
  next
    case 3
    from K calling [of "world s" w i c] 3 show ?thesis by simp
  qed
qed

lemma course_seedLetter:
  assumes block: "\<And>i letter x cur w w'. foldl step Idle (letterBlock i letter x cur w w') = Idle"
    and append: "\<And>w str. step Idle (w, Append str) = Idle"
  shows "keeps (\<lambda>s. foldl step Idle (history s) = Idle)
           (\<lambda>s. restful f (foldl step Idle (history s)))
           (seedLetter textData i letter)"
proof (rule keepsI)
  fix s u s'
  assume K: "foldl step Idle (history s) = Idle"
    and run: "seedLetter textData i letter s = (Value u, s')"
  from seedLetter_Value [OF run] obtain x where
    "history s' = history s @
       letterBlock i letter x (heap s ! sentenceIndices s) (world s) (world s')"
    by blast
  with K block show "foldl step Idle (history s') = Idle"
    by simp
next
  fix s r s'
  assume K: "foldl step Idle (history s) = Idle"
    and run: "seedLetter textData i letter s = (r, s')"
    and r: "\<And>u. r \<noteq> Value u"
  have "foldl step Idle (map (\<lambda>str. (w, Append str)) strs) = Idle" for w strs
    by (induction strs) (simp_all add: append)
  with K seedLetter_fails [OF run r] show "restful f (foldl step Idle (history s'))"
    by (simp add: append)
qed

lemma course_generateText:
  assumes "\<And>i letter. keeps (\<lambda>s. foldl step Idle (history s) = Idle)
           (\<lambda>s. restful f (foldl step Idle (history s))) (seedLetter textData i letter)"
    and "keeps (\<lambda>s. foldl step Idle (history s) = Idle)
           (\<lambda>s. restful f (foldl step Idle (history s)))
           (iteration tf model textData temperature (Some f))"
    and run: "generateText fuel tf model textData seed letters temperature (Some f) w = (r, s)"
  shows "ended f r (foldl step Idle (history s))"
proof -
  have "ensures (\<lambda>s. foldl step Idle (history s) = Idle)
          (\<lambda>s. restful f (foldl step Idle (history s)))
          (generateText fuel tf model textData seed letters temperature (Some f) w)"
    by (rule ensures_generateText [OF assms(1,2)]) (simp_all add: started_def)
  with run show ?thesis
    by (cases r) simp_all
qed



subsection \<open>The text\<close>

text \<open>
  An inner loop that ends with a value has appended exactly the characters it
  generated, and white space is among them.
\<close>

lemma iteration_text:
  assumes "iteration tf model textData temperature cb s = (Value c, s')"
  shows "generated s' = generated s @ c \<and> chars (trace s') = chars (trace s) @ [c]"
proof -
  from iteration_Value [OF assms] obtain i w where
    g: "generated s' = generated s @ c" and
    b: "history s' = history s @
          iterationBlock cb i c (heap s ! sentenceIndices s) (world s) w (world s')"
    by blast
  from trace_history [OF b] have "chars (trace s') = chars (trace s) @ [c]"
    by (simp add: iterationBlock_def callBlock_def chars_def split: option.splits)
  with g show ?thesis by simp
qed

lemma wordLoop_Value:
  assumes "wordLoop fuel tf model textData temperature cb s = (Value u, s')"
  shows "\<exists>g. generated s' = generated s @ concat g \<and> chars (trace s') = chars (trace s) @ g \<and>
           hasWhiteSpace (concat g)"
  using assms
proof (induction fuel arbitrary: s)
  case 0
  then show ?case by simp
next
  case (Suc fuel)
  from Suc.prems obtain c s1 where
    it: "iteration tf model textData temperature cb s = (Value c, s1)" and
    rest: "(if hasWhiteSpace c = False
            then wordLoop fuel tf model textData temperature cb s1
            else (Value (), s1)) = (Value u, s')"
    by (auto split: prod.splits result.splits)
  from iteration_text [OF it] have
    g1: "generated s1 = generated s @ c" and
    c1: "chars (trace s1) = chars (trace s) @ [c]"
    by simp_all
  show ?case
  proof (cases "hasWhiteSpace c")
    case True
    with rest have "s' = s1" by simp
    with g1 c1 True show ?thesis
      by (intro exI [of _ "[c]"]) simp
  next
    case False
    with rest have "wordLoop fuel tf model textData temperature cb s1 = (Value u, s')" by simp
    from Suc.IH [OF this] obtain g where
      "generated s' = generated s1 @ concat g" "chars (trace s') = chars (trace s1) @ g"
      "hasWhiteSpace (concat g)"
      by blast
    with g1 c1 show ?thesis
      by (intro exI [of _ "c # g"]) simp
  qed
qed

lemma seedLetter_text:
  assumes "seedLetter textData i letter s = (Value u, s')"
  shows "generated s' = generated s @ concat (separator i) @ letter \<and>
         chars (trace s') = chars (trace s)"
proof -
  from seedLetter_Value [OF assms] obtain x where
    g: "generated s' = generated s @ concat (separator i) @ letter" and
    b: "history s' = history s @
          letterBlock i letter x (heap s ! sentenceIndices s) (world s) (world s')"
    by blast
  from trace_history [OF b] have "chars (trace s') = chars (trace s)"
    by (simp add: letterBlock_def chars_def separator_def)
  with g show ?thesis by simp
qed

subsection \<open>The clamp\<close>

lemma math_max_below:
  "number_le temperature floorTemperature \<Longrightarrow>
   math_max temperature floorTemperature = floorTemperature"
  by (cases temperature) (simp_all add: floorTemperature_def max_def)

lemma number_le_zero_floor:
  "number_le temperature (Finite 0) \<Longrightarrow> number_le temperature floorTemperature"
  by (cases temperature) (simp_all add: floorTemperature_def)

section \<open>The draw of the engine of the spec\<close>

text \<open>
  The index that the cumulative sums give lies among the outcomes; on probabilities that
  sum to more than the random number it is the outcome whose interval holds the number.
\<close>

lemma pick_range:
  "ps \<noteq> [] \<Longrightarrow> k \<le> pick ps acc r k \<and> pick ps acc r k < k + length ps"
  by (induction ps acc r k rule: pick.induct) auto

lemma pick_finite:
  assumes "qs \<noteq> []" and "a \<le> r" and "r < a + sum_list qs"
  shows "\<exists>j<length qs. pick (map Finite qs) (Finite a) (Finite r) k = k + j \<and>
           a + sum_list (take j qs) \<le> r \<and> r < a + sum_list (take (Suc j) qs)"
  using assms
proof (induction qs arbitrary: a k)
  case Nil
  then show ?case by simp
next
  case (Cons q qs)
  show ?case
  proof (cases qs)
    case Nil
    with Cons.prems show ?thesis by simp
  next
    case (Cons q' qs')
    show ?thesis
    proof (cases "r < a + q")
      case True
      with Cons Cons.prems show ?thesis by (intro exI [of _ 0]) simp
    next
      case False
      with Cons.prems Cons
      have "\<exists>j<length qs. pick (map Finite qs) (Finite (a + q)) (Finite r) (Suc k) = Suc k + j \<and>
              (a + q) + sum_list (take j qs) \<le> r \<and> r < (a + q) + sum_list (take (Suc j) qs)"
        by (intro Cons.IH) (simp_all add: algebra_simps)
      then obtain j where j: "j < length qs"
        "pick (map Finite qs) (Finite (a + q)) (Finite r) (Suc k) = Suc k + j"
        "(a + q) + sum_list (take j qs) \<le> r" "r < (a + q) + sum_list (take (Suc j) qs)"
        by blast
      with False Cons show ?thesis
        by (intro exI [of _ "Suc j"]) (simp add: algebra_simps)
    qed
  qed
qed

lemma foldl_num_add: "foldl num_add (Finite a) (map Finite ws) = Finite (a + sum_list ws)"
  by (induction ws arbitrary: a) (simp_all add: algebra_simps)

lemma sum_list_divide:
  "sum_list (map (\<lambda>l. f l / (W :: real)) ls) = sum_list (map f ls) / W"
  by (induction ls) (simp_all add: add_divide_distrib)

text \<open>The logit of a likelihood under a positive divisor, and its exponential.\<close>

lemma logit_likelihood:
  assumes "likelihood p" and "0 < d"
  shows "num_exp (num_div (num_log p) (Finite d)) = Finite (weight (num_div (num_log p) (Finite d)))"
    and "0 \<le> weight (num_div (num_log p) (Finite d))"
    and "positive p \<Longrightarrow> 0 < weight (num_div (num_log p) (Finite d))"
    and "p = Finite 0 \<Longrightarrow> num_div (num_log p) (Finite d) = NegInfinity"
    and "weight (num_div (num_log p) (Finite d)) = 0 \<longleftrightarrow> p = Finite 0"
  using assms by (cases p; simp)+

lemma sum_list_weights_pos:
  assumes "list_all likelihood probs" and "list_ex positive probs" and "0 < d"
  shows "0 < sum_list (map (\<lambda>p. weight (num_div (num_log p) (Finite d))) probs)"
  using assms
proof (induction probs)
  case Nil
  then show ?case by simp
next
  case (Cons p probs)
  have nn: "0 \<le> sum_list (map (\<lambda>p. weight (num_div (num_log p) (Finite d))) probs)"
    using Cons.prems(1,3) by (intro sum_list_nonneg) (auto simp: list_all_iff logit_likelihood(2))
  show ?case
  proof (cases "positive p")
    case True
    with Cons.prems have "0 < weight (num_div (num_log p) (Finite d))"
      by (simp add: logit_likelihood(3))
    with nn show ?thesis by simp
  next
    case False
    with Cons have "0 < sum_list (map (\<lambda>p. weight (num_div (num_log p) (Finite d))) probs)"
      by simp
    moreover from Cons.prems have "0 \<le> weight (num_div (num_log p) (Finite d))"
      by (simp add: logit_likelihood(2))
    ultimately show ?thesis by simp
  qed
qed

lemma softmax_logits:
  assumes "list_all likelihood probs" and "list_ex positive probs" and "0 < d"
  defines "logits \<equiv> map (\<lambda>p. num_div (num_log p) (Finite d)) probs"
  shows "softmax logits =
           map Finite (map (\<lambda>l. weight l / sum_list (map weight logits)) logits)"
proof -
  have e: "map num_exp logits = map Finite (map weight logits)"
    using assms(1,3) unfolding logits_def
    by (induction probs) (simp_all add: logit_likelihood(1))
  have W: "0 < sum_list (map weight logits)"
    using sum_list_weights_pos [OF assms(1-3)] by (simp add: logits_def comp_def)
  then have "num_div (Finite x) (Finite (sum_list (map weight logits))) =
      Finite (x / sum_list (map weight logits))" for x
    by simp
  then show ?thesis
    unfolding softmax_def e Let_def foldl_num_add by (simp add: comp_def)
qed

text \<open>
  On likelihoods that are not all zero, the draw of the engine is a draw from the
  categorical distribution of the logits.
\<close>

lemma spec_draw:
  assumes "list_all likelihood probs" and "list_ex positive probs" and "0 < d"
    and "0 \<le> r" and "r < 1"
  defines "logits \<equiv> map (\<lambda>p. num_div (num_log p) (Finite d)) probs"
  shows "drawnFrom logits r (pick (softmax logits) (Finite 0) (Finite r) 0)"
proof -
  define W where "W = sum_list (map weight logits)"
  define qs where "qs = map (\<lambda>l. weight l / W) logits"
  have W: "0 < W"
    using sum_list_weights_pos [OF assms(1-3)] by (simp add: W_def logits_def comp_def)
  have sm: "softmax logits = map Finite qs"
    using softmax_logits [OF assms(1-3)] by (simp add: qs_def W_def logits_def)
  from assms(2) have ne: "qs \<noteq> []"
    by (auto simp: qs_def logits_def list_ex_iff)
  have total: "sum_list qs = 1"
    using W by (simp add: qs_def sum_list_divide W_def)
  from pick_finite [OF ne, of 0 r 0] assms(4,5) total obtain j where
    j: "j < length qs" "pick (map Finite qs) (Finite 0) (Finite r) 0 = j"
    "sum_list (take j qs) \<le> r" "r < sum_list (take (Suc j) qs)"
    by auto
  have part: "sum_list (take n qs) = sum_list (map weight (take n logits)) / W" for n
    by (simp add: qs_def take_map sum_list_divide)
  from j(3,4) W have "sum_list (map weight (take j logits)) \<le> r * W"
    and "r * W < sum_list (map weight (take (Suc j) logits))"
    unfolding part by (simp_all add: field_simps)
  with j(1,2) show ?thesis
    by (simp add: drawnFrom_def sm qs_def W_def)
qed

lemma drawnFrom_weight: "drawnFrom logits r k \<Longrightarrow> 0 < weight (logits ! k)"
  by (auto simp: drawnFrom_def take_Suc_conv_app_nth)

text \<open>What \<open>sample\<close> does on the engine of the spec.\<close>

lemma sample_specMath:
  assumes "random None w = (rs, w')" and "probs \<noteq> []"
  shows "sample (specMath random tf) probs temperature w =
     (Inr (Some (int (pick
        (softmax (map (\<lambda>p. num_div (num_log p) (math_max temperature floorTemperature)) probs))
        (Finite 0) (Finite (rs 0)) 0))), w')"
  using assms by (simp add: sample_def specMath_def specMultinomial_def comp_def)

lemma math_max_Finite:
  "math_max (Finite t) floorTemperature = Finite (max t (1 / 1000000))"
  by (simp add: floorTemperature_def)

lemma softmax_length: "length (softmax logits) = length logits"
  by (simp add: softmax_def Let_def)
section \<open>The scripted run\<close>

text \<open>
  The scripted collaborators on the seed \<open>[1, 2]\<close> and the initial letters \<open>h\<close>, \<open>w\<close>,
  with the draws 2, 0, 0: the first word is \<open>i\<close> and a space, the second a space.  Each
  event of the log stands with the world of its time: the draws still to come and the
  characters that the callback has shown.
\<close>

lemma demo_run:
  "generateText 5 demoEngine demoModel demoText [Some 1, Some 2] [''h'', ''w'']
     (Finite 1) demoCallback ([2, 0, 0], []) =
     (Value ''hi  w '',
      \<lparr>world = ([], [''i'', '' '', '' '']),
       heap = [[Some 1, Some 2], [Some 1, Some 2], [Some 2, Some 1], [Some 1, Some 2],
               [Some 2, Some 0], [Some 0, Some 3], [Some 3, Some 0]],
       sentenceIndices = 6, generated = ''hi  w '',
       history =
         [(([2, 0, 0], []), Append ''h''),
          (([2, 0, 0], []), Encoded ''h'' (Some 1)),
          (([2, 0, 0], []), Window [Some 2, Some 1]),
          (([2, 0, 0], []), Predict),
          (([0, 0], []), Sampled (Some 2) ''i''),
          (([0, 0], []), OnChar ''i''),
          (([0, 0], [''i'']), Completed ''i''),
          (([0, 0], [''i'']), Append ''i''),
          (([0, 0], [''i'']), Window [Some 1, Some 2]),
          (([0, 0], [''i'']), Predict),
          (([0], [''i'']), Sampled (Some 0) '' ''),
          (([0], [''i'']), OnChar '' ''),
          (([0], [''i'', '' '']), Completed '' ''),
          (([0], [''i'', '' '']), Append '' ''),
          (([0], [''i'', '' '']), Window [Some 2, Some 0]),
          (([0], [''i'', '' '']), Append '' ''),
          (([0], [''i'', '' '']), Append ''w''),
          (([0], [''i'', '' '']), Encoded ''w'' (Some 3)),
          (([0], [''i'', '' '']), Window [Some 0, Some 3]),
          (([0], [''i'', '' '']), Predict),
          (([], [''i'', '' '']), Sampled (Some 0) '' ''),
          (([], [''i'', '' '']), OnChar '' ''),
          (([], [''i'', '' '', '' '']), Completed '' ''),
          (([], [''i'', '' '', '' '']), Append '' ''),
          (([], [''i'', '' '', '' '']), Window [Some 3, Some 0])]\<rparr>)"
  by code_simp

section \<open>sample: the logits and the draw\<close>

text \<open>
  Claim C1, on the engine of the spec.  For every vector of likelihoods \<open>probs\<close> that
  are not all zero and every finite temperature \<open>t\<close>, \<open>sample\<close> returns an index \<open>k\<close>,
  and leaves the world as the random source has left it; \<open>k\<close> is drawn, on the first
  number \<open>rs 0\<close> of the source, from the categorical distribution of the logits
  \<open>log (probs[i]) / max t 1e-6\<close>, one for every entry of \<open>probs\<close>.  In particular, with
  a temperature \<open>t \<le> 0\<close> the divisor of the logits is \<open>1e-6\<close>.
\<close>

theorem sample_categorical:
  assumes "random None w = (rs, w')" and "0 \<le> rs 0" and "rs 0 < 1"
    and "list_all likelihood probs" and "list_ex positive probs"
  shows "\<exists>k. sample (specMath random tf) probs (Finite t) w = (Inr (Some (int k)), w') \<and>
           drawnFrom (map (\<lambda>p. num_div (num_log p) (Finite (max t (1 / 1000000)))) probs)
             (rs 0) k \<and>
           (t \<le> 0 \<longrightarrow>
              drawnFrom (map (\<lambda>p. num_div (num_log p) (Finite (1 / 1000000))) probs) (rs 0) k)"
proof -
  let ?d = "max t (1 / 1000000)"
  let ?logits = "map (\<lambda>p. num_div (num_log p) (Finite ?d)) probs"
  let ?k = "pick (softmax ?logits) (Finite 0) (Finite (rs 0)) 0"
  have d: "0 < ?d" by simp
  from assms(5) have ne: "probs \<noteq> []" by auto
  have "sample (specMath random tf) probs (Finite t) w = (Inr (Some (int ?k)), w')"
    using sample_specMath [where random = random and temperature = "Finite t" and tf = tf,
        OF assms(1) ne]
    by (simp only: math_max_Finite)
  moreover have k: "drawnFrom ?logits (rs 0) ?k"
    by (rule spec_draw [OF assms(4,5) d assms(2,3)])
  moreover have "t \<le> 0 \<longrightarrow>
      drawnFrom (map (\<lambda>p. num_div (num_log p) (Finite (1 / 1000000))) probs) (rs 0) ?k"
  proof
    assume "t \<le> 0"
    then have "?d = 1 / 1000000" by simp
    with k show
      "drawnFrom (map (\<lambda>p. num_div (num_log p) (Finite (1 / 1000000))) probs) (rs 0) ?k"
      by simp
  qed
  ultimately show ?thesis by blast
qed

text \<open>
  The likelihoods 0 and 1 at the temperature 0, on the random number one half: the
  logits are \<open>-Infinity\<close> and \<open>0 / 1e-6\<close>, and the index drawn is 1.
\<close>

theorem sample_categorical_witness:
  "half None () = (\<lambda>j. 1 / 2, ())
   \<and> list_all likelihood [Finite 0, Finite 1] \<and> list_ex positive [Finite 0, Finite 1]
   \<and> map (\<lambda>p. num_div (num_log p) (Finite (max 0 (1 / 1000000)))) [Finite 0, Finite 1] =
       [NegInfinity, Finite 0]
   \<and> sample (specMath half bareEngine) [Finite 0, Finite 1] (Finite 0) () = (Inr (Some 1), ())
   \<and> drawnFrom [NegInfinity, Finite 0] (1 / 2) 1
   \<and> (\<exists>k. sample (specMath half bareEngine) [Finite 0, Finite 1] (Finite 0) () =
              (Inr (Some (int k)), ()) \<and>
            drawnFrom (map (\<lambda>p. num_div (num_log p) (Finite (1 / 1000000))) [Finite 0, Finite 1])
              (1 / 2) k)"
proof -
  have 1: "half None () = (\<lambda>j. 1 / 2, ())" by (simp add: half_def)
  have 2: "(0::real) \<le> (\<lambda>j. 1 / 2) (0::nat)" and 3: "(\<lambda>j. 1 / 2) (0::nat) < (1::real)"
    by simp_all
  have 4: "list_all likelihood [Finite 0, Finite 1]"
    and 5: "list_ex positive [Finite 0, Finite 1]"
    by simp_all
  have 6: "map (\<lambda>p. num_div (num_log p) (Finite (max 0 (1 / 1000000)))) [Finite 0, Finite 1] =
      [NegInfinity, Finite 0]"
    by simp
  have 7: "sample (specMath half bareEngine) [Finite 0, Finite 1] (Finite 0) () =
      (Inr (Some 1), ())"
    by (simp add: sample_def specMath_def specMultinomial_def softmax_def half_def
        bareEngine_def floorTemperature_def)
  have 8: "drawnFrom [NegInfinity, Finite 0] (1 / 2) 1"
    by (simp add: drawnFrom_def)
  from sample_categorical [where random = half and rs = "\<lambda>j. 1 / 2" and tf = bareEngine and t = 0,
      OF 1 2 3 4 5]
  have 9: "\<exists>k. sample (specMath half bareEngine) [Finite 0, Finite 1] (Finite 0) () =
              (Inr (Some (int k)), ()) \<and>
            drawnFrom (map (\<lambda>p. num_div (num_log p) (Finite (1 / 1000000))) [Finite 0, Finite 1])
              (1 / 2) k"
    by auto
  from 1 4 5 6 7 8 9 show ?thesis by (simp only: simp_thms)
qed

section \<open>sample: temperatures below the floor\<close>

text \<open>
  Claim C10.  Two temperatures that are both at most \<^verbatim>\<open>1e-6\<close> (zero, negative numbers and
  \<^verbatim>\<open>-Infinity\<close> among them) give the same result on the same tensor and the same world,
  the state of the random source included: the engine receives the same logits.
\<close>

theorem sample_below_floor:
  assumes "number_le t1 floorTemperature" and "number_le t2 floorTemperature"
  shows "sample tf probs t1 w = sample tf probs t2 w"
  using assms by (simp add: sample_def math_max_below)

text \<open>The temperatures 0 and -1 on the scripted engine.\<close>

theorem sample_below_floor_witness:
  "number_le (Finite 0) floorTemperature \<and> number_le (Finite (- 1)) floorTemperature
   \<and> sample demoEngine (Predicted (OneHot [])) (Finite 0) ([1], []) =
       sample demoEngine (Predicted (OneHot [])) (Finite (- 1)) ([1], [])"
proof -
  have 0: "number_le (Finite 0) floorTemperature"
    and 1: "number_le (Finite (- 1)) floorTemperature"
    by (simp_all add: floorTemperature_def)
  from 0 1 sample_below_floor [OF 0 1] show ?thesis by simp
qed


section \<open>sample: entries that are zero\<close>

text \<open>
  Claim C4, as stated, on the engine of the spec: on a vector with entries that are
  zero, an index whose entry is zero is never returned.  When every entry is zero,
  every logit is \<open>-Infinity\<close>, the sum of the likelihoods is zero and the normalized
  probabilities are \<^verbatim>\<open>NaN\<close>: no cumulative sum exceeds the random number, the draw
  gives the last index, and \<open>sample\<close> returns it, an index whose entry is zero.
\<close>

theorem zero_entry_counterexample:
  "sample (specMath half bareEngine) [Finite 0, Finite 0] (Finite 1) () = (Inr (Some 1), ())
   \<and> [Finite 0, Finite 0] ! 1 = Finite (0 :: real)
   \<and> map (\<lambda>p. num_div (num_log p) (Finite 1)) [Finite 0, Finite 0] = [NegInfinity, NegInfinity]
   \<and> softmax [NegInfinity, NegInfinity] = [NaN, NaN]"
  by (simp add: sample_def specMath_def specMultinomial_def softmax_def half_def
      bareEngine_def floorTemperature_def)

text \<open>
  Claim C4, amended, on the engine of the spec.  For every vector of likelihoods
  \<open>probs\<close> with at least one positive entry and every finite temperature, \<open>sample\<close>
  does not raise: it returns an index of \<open>probs\<close>, and the entry at that index is not
  zero.  The logit of every entry that is zero is \<open>-Infinity\<close>.
\<close>

theorem sample_zero_entries:
  assumes "random None w = (rs, w')" and "0 \<le> rs 0" and "rs 0 < 1"
    and "list_all likelihood probs" and "list_ex positive probs"
  shows "(\<exists>k. sample (specMath random tf) probs (Finite t) w = (Inr (Some (int k)), w') \<and>
            k < length probs \<and> probs ! k \<noteq> Finite 0 \<and> positive (probs ! k)) \<and>
         list_all (\<lambda>p. p = Finite 0 \<longrightarrow>
             num_div (num_log p) (math_max (Finite t) floorTemperature) = NegInfinity) probs"
proof -
  let ?d = "max t (1 / 1000000)"
  let ?logits = "map (\<lambda>p. num_div (num_log p) (Finite ?d)) probs"
  let ?k = "pick (softmax ?logits) (Finite 0) (Finite (rs 0)) 0"
  have d: "0 < ?d" by simp
  from assms(5) have ne: "probs \<noteq> []" by auto
  have run: "sample (specMath random tf) probs (Finite t) w = (Inr (Some (int ?k)), w')"
    using sample_specMath [where random = random and temperature = "Finite t" and tf = tf,
        OF assms(1) ne]
    by (simp only: math_max_Finite)
  have drawn: "drawnFrom ?logits (rs 0) ?k"
    by (rule spec_draw [OF assms(4,5) d assms(2,3)])
  then have k: "?k < length probs" by (simp add: drawnFrom_def)
  with assms(4) have l: "likelihood (probs ! ?k)" by (simp add: list_all_length)
  from drawnFrom_weight [OF drawn] k
  have "0 < weight (num_div (num_log (probs ! ?k)) (Finite ?d))" by simp
  with logit_likelihood(5) [OF l d] have nz: "probs ! ?k \<noteq> Finite 0" by simp
  with l have "positive (probs ! ?k)" by (cases "probs ! ?k") simp_all
  with run k nz have
    "\<exists>k. sample (specMath random tf) probs (Finite t) w = (Inr (Some (int k)), w') \<and>
       k < length probs \<and> probs ! k \<noteq> Finite 0 \<and> positive (probs ! k)"
    by blast
  moreover have "list_all (\<lambda>p. p = Finite 0 \<longrightarrow>
      num_div (num_log p) (math_max (Finite t) floorTemperature) = NegInfinity) probs"
    using d by (simp add: list_all_iff math_max_Finite)
  ultimately show ?thesis by (simp only: simp_thms)
qed

text \<open>
  The likelihoods one quarter, 0 and three quarters at the temperature 1, on the random
  number one half: the index returned is 2.
\<close>

theorem sample_zero_entries_witness:
  "half None () = (\<lambda>j. 1 / 2, ())
   \<and> list_all likelihood [Finite (1 / 4), Finite 0, Finite (3 / 4)]
   \<and> list_ex positive [Finite (1 / 4), Finite 0, Finite (3 / 4)]
   \<and> sample (specMath half bareEngine) [Finite (1 / 4), Finite 0, Finite (3 / 4)] (Finite 1) () =
       (Inr (Some 2), ())
   \<and> (\<exists>k. sample (specMath half bareEngine) [Finite (1 / 4), Finite 0, Finite (3 / 4)]
              (Finite 1) () = (Inr (Some (int k)), ()) \<and>
            k < 3 \<and> [Finite (1 / 4), Finite 0, Finite (3 / 4)] ! k \<noteq> Finite 0)"
proof -
  have 1: "half None () = (\<lambda>j. 1 / 2, ())" by (simp add: half_def)
  have 2: "(0::real) \<le> (\<lambda>j. 1 / 2) (0::nat)" and 3: "(\<lambda>j. 1 / 2) (0::nat) < (1::real)"
    by simp_all
  have 4: "list_all likelihood [Finite (1 / 4), Finite 0, Finite (3 / 4)]"
    and 5: "list_ex positive [Finite (1 / 4), Finite 0, Finite (3 / 4)]"
    by simp_all
  have 6: "sample (specMath half bareEngine) [Finite (1 / 4), Finite 0, Finite (3 / 4)]
      (Finite 1) () = (Inr (Some 2), ())"
    by (simp add: sample_def specMath_def specMultinomial_def softmax_def half_def
        bareEngine_def floorTemperature_def)
  from sample_zero_entries [where random = half and rs = "\<lambda>j. 1 / 2" and tf = bareEngine and t = 1,
      OF 1 2 3 4 5]
  have 7: "\<exists>k. sample (specMath half bareEngine) [Finite (1 / 4), Finite 0, Finite (3 / 4)]
              (Finite 1) () = (Inr (Some (int k)), ()) \<and>
            k < 3 \<and> [Finite (1 / 4), Finite 0, Finite (3 / 4)] ! k \<noteq> Finite 0"
    by auto
  from 1 4 5 6 7 show ?thesis by (simp only: simp_thms)
qed

section \<open>sample: the range of the index\<close>

text \<open>
  Claim C5, on the engine of the spec.  For every vector \<open>probs\<close> that is not empty and
  every temperature, \<open>sample\<close> returns an integer from 0 to the length of \<open>probs\<close> less
  one; so it does for the vectors of length \<^verbatim>\<open>charSetSize\<close> with entries that are not
  negative and the temperatures above zero.
\<close>

theorem sample_index_range:
  assumes "random None w = (rs, w')" and "probs \<noteq> []"
  shows "\<exists>k. sample (specMath random tf) probs temperature w = (Inr (Some k), w') \<and>
           0 \<le> k \<and> k < int (length probs)"
proof -
  let ?ps = "softmax (map (\<lambda>p. num_div (num_log p) (math_max temperature floorTemperature)) probs)"
  from assms(2) have "?ps \<noteq> []"
    using softmax_length [of "map (\<lambda>p. num_div (num_log p) (math_max temperature floorTemperature)) probs"]
    by (cases ?ps) auto
  from pick_range [OF this, of 0 "Finite 0" "Finite (rs 0)"]
  have "pick ?ps (Finite 0) (Finite (rs 0)) 0 < length probs"
    by (simp add: softmax_length)
  with sample_specMath [where random = random and temperature = temperature and tf = tf, OF assms]
  show ?thesis
    by simp
qed

text \<open>
  The likelihoods one quarter and three quarters at the temperature 1, on the random
  number one half: the index returned is 1.
\<close>

theorem sample_index_range_witness:
  "half None () = (\<lambda>j. 1 / 2, ())
   \<and> [Finite (1 / 4), Finite (3 / 4)] \<noteq> []
   \<and> sample (specMath half bareEngine) [Finite (1 / 4), Finite (3 / 4)] (Finite 1) () =
       (Inr (Some 1), ())
   \<and> (\<exists>k. sample (specMath half bareEngine) [Finite (1 / 4), Finite (3 / 4)] (Finite 1) () =
              (Inr (Some k), ()) \<and> 0 \<le> k \<and> k < 2)"
proof -
  have 1: "half None () = (\<lambda>j. 1 / 2, ())" by (simp add: half_def)
  have 2: "[Finite (1 / 4), Finite (3 / 4)] \<noteq> []" by simp
  have 3: "sample (specMath half bareEngine) [Finite (1 / 4), Finite (3 / 4)] (Finite 1) () =
      (Inr (Some 1), ())"
    by (simp add: sample_def specMath_def specMultinomial_def softmax_def half_def
        bareEngine_def floorTemperature_def)
  from sample_index_range [where random = half and tf = bareEngine and temperature = "Finite 1",
      OF 1 2]
  have 4: "\<exists>k. sample (specMath half bareEngine) [Finite (1 / 4), Finite (3 / 4)] (Finite 1) () =
              (Inr (Some k), ()) \<and> 0 \<le> k \<and> k < 2"
    by simp
  from 1 2 3 4 show ?thesis by (simp only: simp_thms)
qed

section \<open>generateText: no initial letters\<close>

text \<open>
  Claim C7.  With no initial letters the call returns the empty string, whatever the
  fuel: the body of the loop is never run.  The call ends with an empty log, so
  \<^verbatim>\<open>model.predict\<close> has not been called, and no collaborator has changed the world.
\<close>

theorem no_letters_empty_string:
  "fst (generateText fuel tf model textData seed [] temperature cb w) = Value ''''
   \<and> Predict \<notin> set (trace (snd (generateText fuel tf model textData seed [] temperature cb w)))
   \<and> trace (snd (generateText fuel tf model textData seed [] temperature cb w)) = []
   \<and> world (snd (generateText fuel tf model textData seed [] temperature cb w)) = w"
  by (simp add: generateText_started started_def trace_def)

text \<open>The scripted collaborators with no fuel at all.\<close>

theorem no_letters_empty_string_witness:
  "fst (generateText 0 demoEngine demoModel demoText [Some 1, Some 2] []
          (Finite 1) demoCallback ([2, 0, 0], [])) = Value ''''
   \<and> trace (snd (generateText 0 demoEngine demoModel demoText [Some 1, Some 2] []
          (Finite 1) demoCallback ([2, 0, 0], []))) = []"
  using no_letters_empty_string [of 0 demoEngine demoModel demoText "[Some 1, Some 2]"
      "Finite 1" demoCallback "([2, 0, 0], [])"]
  by simp

section \<open>generateText: the caller's array\<close>

text \<open>
  Claim C6.  However the call ends (with the text, with a value thrown or with the fuel
  used up), the caller's array is in the store with the contents it had when the call
  started, so with its length too: the function writes only into arrays it has
  allocated, the first of them the copy of line 42.
\<close>

theorem caller_array_unchanged:
  assumes "generateText fuel tf model textData seed letters temperature cb w = (r, s)"
  shows "callerArray < length (heap s) \<and> heap s ! callerArray = seed"
proof -
  have "ensures (untouched seed) (untouched seed)
          (generateText fuel tf model textData seed letters temperature cb w)"
    by (rule ensures_generateText [OF untouched_seedLetter untouched_iteration])
       (simp_all add: untouched_def started_def callerArray_def)
  with assms show ?thesis
    by (cases r) (simp_all add: untouched_def)
qed

text \<open>The first run: the caller's array still holds \<open>[1, 2]\<close>, next to six other arrays.\<close>

theorem caller_array_unchanged_witness:
  "fst demoRun = Value ''hi  w ''
   \<and> length (heap (snd demoRun)) = 7
   \<and> heap (snd demoRun) ! callerArray = [Some 1, Some 2]"
  using caller_array_unchanged [OF demo_run] demo_run
  by simp


section \<open>generateText: the window\<close>

text \<open>
  Claim C8.  On a seed of the length \<^verbatim>\<open>sampleLen\<close> of the model, which is not zero,
  however the call ends: every shift of the window gives the window without its oldest
  index followed by the newest index, which is the index of the initial letter just
  encoded or the index just drawn; and every window has the length of the seed, which
  is \<^verbatim>\<open>sampleLen\<close>.
\<close>

theorem window_steady:
  assumes "generateText fuel tf model textData seed letters temperature cb w = (r, s)"
    and "length seed = sampleLen model" and "0 < sampleLen model"
  shows "shiftsNewest seed (trace s) \<and>
         constantLength seed (windows (trace s)) \<and>
         list_all (\<lambda>win. length win = sampleLen model) (windows (trace s))"
proof -
  from assms(2,3) have seed: "seed \<noteq> []" by auto
  have "ensures (shifted seed) (shiftedSoFar seed)
          (generateText fuel tf model textData seed letters temperature cb w)"
    by (rule ensures_generateText
          [OF shifted_seedLetter [OF seed] shifted_iteration [OF seed] shifted_shiftedSoFar])
       (simp_all add: shifted_def started_def constantLength_def trace_def)
  with assms(1) have "shiftedSoFar seed s"
    by (cases r) (simp_all add: shifted_shiftedSoFar)
  with assms(2) show ?thesis
    by (simp add: shiftedSoFar_def constantLength_def)
qed

text \<open>
  The scripted run, on a seed of two indices with the model's \<^verbatim>\<open>sampleLen\<close> of 2: the
  five windows of the log.
\<close>

theorem window_steady_witness:
  "length [Some 1, Some (2 :: int)] = sampleLen demoModel \<and> 0 < sampleLen demoModel
   \<and> fst demoRun = Value ''hi  w ''
   \<and> windows (trace (snd demoRun)) =
       [[Some 2, Some 1], [Some 1, Some 2], [Some 2, Some 0], [Some 0, Some 3],
        [Some 3, Some 0]]
   \<and> shiftsNewest [Some 1, Some 2] (trace (snd demoRun))
   \<and> list_all (\<lambda>win. length win = sampleLen demoModel) (windows (trace (snd demoRun)))"
proof -
  have 1: "length [Some 1, Some (2 :: int)] = sampleLen demoModel"
    and 2: "0 < sampleLen demoModel"
    by (simp_all add: demoModel_def)
  have 3: "fst demoRun = Value ''hi  w ''"
    and 4: "windows (trace (snd demoRun)) =
       [[Some 2, Some 1], [Some 1, Some 2], [Some 2, Some 0], [Some 0, Some 3],
        [Some 3, Some 0]]"
    by (simp_all add: demo_run trace_def)
  from window_steady [OF demo_run 1 2] demo_run
  have "shiftsNewest [Some 1, Some 2] (trace (snd demoRun))"
    and "list_all (\<lambda>win. length win = sampleLen demoModel) (windows (trace (snd demoRun)))"
    by simp_all
  with 1 2 3 4 show ?thesis by (simp only: simp_thms)
qed

section \<open>generateText: the callback, once for each character\<close>



section \<open>generateText: the callback and the append\<close>

text \<open>
  Claim C3, as stated: the callback is called on a character after the character is
  appended to the text.  In the scripted run the callback is called on \<open>i\<close> when only
  the initial letter \<open>h\<close> has been appended: the append of \<open>i\<close> comes after the call.
\<close>

theorem callback_after_append_counterexample:
  "take 8 (trace (snd demoRun)) =
     [Append ''h'', Encoded ''h'' (Some 1), Window [Some 2, Some 1], Predict,
      Sampled (Some 2) ''i'', OnChar ''i'', Completed ''i'', Append ''i'']
   \<and> \<not> callFollowsAppend [] (trace (snd demoRun))"
  using demo_run
  by (simp add: trace_def)

text \<open>
  Claim C3, amended.  With the callback \<open>f\<close>, however the call ends: each character
  drawn is handed to the callback at once; the call is followed by nothing but its
  completion, which leaves the world that \<open>f\<close> gives from the world of the call; and
  the completion is followed by nothing but the append of that character to the text,
  in the world that the call has left.  So the callback is called on a character before
  the character is appended, the function goes on only when the work of the callback is
  over, and all of it lies before the next iteration of the inner loop.  A call of
  \<^verbatim>\<open>generateText\<close> that does not return ends outside this course or in a call of the
  callback that has thrown.
\<close>

theorem callback_before_append:
  assumes "cb = Some f"
    and "generateText fuel tf model textData seed letters temperature cb w = (r, s)"
  shows "ended f r (foldl (orderStep f) Idle (history s))"
proof -
  from assms have run:
    "generateText fuel tf model textData seed letters temperature (Some f) w = (r, s)"
    by simp
  show ?thesis
  proof (rule course_generateText [OF _ _ run])
    show "keeps (\<lambda>s. foldl (orderStep f) Idle (history s) = Idle)
           (\<lambda>s. restful f (foldl (orderStep f) Idle (history s)))
           (seedLetter textData i letter)" for i letter
      by (rule course_seedLetter) (simp_all add: orderStep_letter)
    show "keeps (\<lambda>s. foldl (orderStep f) Idle (history s) = Idle)
           (\<lambda>s. restful f (foldl (orderStep f) Idle (history s)))
           (iteration tf model textData temperature (Some f))"
      by (rule course_iteration) (simp_all add: orderStep_block)
  qed
qed

text \<open>
  The scripted run: the course of the three characters, up to the call on the first,
  up to its completion and to the end.
\<close>

theorem callback_before_append_witness:
  "demoCallback = Some demoShow
   \<and> fst demoRun = Value ''hi  w ''
   \<and> foldl (orderStep demoShow) Idle (take 6 (history (snd demoRun))) = Calling ''i'' ([0, 0], [])
   \<and> foldl (orderStep demoShow) Idle (take 7 (history (snd demoRun))) =
       Resolved ''i'' ([0, 0], [''i''])
   \<and> foldl (orderStep demoShow) Idle (history (snd demoRun)) = Idle
   \<and> ended demoShow (fst demoRun) (foldl (orderStep demoShow) Idle (history (snd demoRun)))"
proof -
  have 1: "fst demoRun = Value ''hi  w ''"
    and 2: "foldl (orderStep demoShow) Idle (take 6 (history (snd demoRun))) =
        Calling ''i'' ([0, 0], [])"
    and 3: "foldl (orderStep demoShow) Idle (take 7 (history (snd demoRun))) =
        Resolved ''i'' ([0, 0], [''i''])"
    and 4: "foldl (orderStep demoShow) Idle (history (snd demoRun)) = Idle"
    by (simp_all add: demo_run demoShow_def)
  from callback_before_append [OF demoCallback_def demo_run] demo_run
  have 5: "ended demoShow (fst demoRun) (foldl (orderStep demoShow) Idle (history (snd demoRun)))"
    by simp
  from 1 2 3 4 5 demoCallback_def show ?thesis by (simp only: simp_thms)
qed

section \<open>generateText: the space between two words\<close>

text \<open>
  Claim C2, as stated: for the initial letters \<open>h\<close> and \<open>w\<close>, exactly one space
  separates the two letters in the text returned.  In the first run the inner loop ends
  the first word with a space, and the text is \<open>hi\<close>, two spaces, \<open>w\<close> and a space.
\<close>

theorem one_space_counterexample:
  "fst demoRun = Value ''hi  w ''
   \<and> \<not> oneSpaceApart ''h'' ''w'' ''hi  w ''"
  using demo_run
  by (simp add: oneSpaceApart_def)

text \<open>
  Claim C2, amended.  For the initial letters \<open>h\<close> and \<open>w\<close>, the text returned is \<open>h\<close>,
  the characters generated for the first word, one space, \<open>w\<close>, and the characters
  generated for the second word, with nothing else: the function itself puts exactly one
  space into the text, at the start of the second segment, whatever the characters
  generated are.  The characters of each word hold white space of their own (the
  character that ended the word).
\<close>

theorem two_letters_one_separator:
  assumes "generateText fuel tf model textData seed [''h'', ''w''] temperature cb w = (Value str, s)"
  shows "\<exists>g1 g2. str = ''h'' @ concat g1 @ '' '' @ ''w'' @ concat g2 \<and>
           chars (trace s) = g1 @ g2 \<and> hasWhiteSpace (concat g1) \<and> hasWhiteSpace (concat g2)"
proof -
  from assms obtain u where
    "letterLoop fuel tf model textData temperature cb 0 [''h'', ''w''] (started seed w) = (Value u, s)"
    and out: "str = generated s"
    by (auto simp: generateText_started split: prod.splits result.splits)
  then obtain s1 s2 s3 u1 u2 u3 u4 where
    1: "seedLetter textData 0 ''h'' (started seed w) = (Value u1, s1)" and
    2: "wordLoop fuel tf model textData temperature cb s1 = (Value u2, s2)" and
    3: "seedLetter textData (Suc 0) ''w'' s2 = (Value u3, s3)" and
    4: "wordLoop fuel tf model textData temperature cb s3 = (Value u4, s)"
    by (auto split: prod.splits result.splits)
  from wordLoop_Value [OF 2] obtain g1 where
    g1: "generated s2 = generated s1 @ concat g1" "chars (trace s2) = chars (trace s1) @ g1"
      "hasWhiteSpace (concat g1)"
    by blast
  from wordLoop_Value [OF 4] obtain g2 where
    g2: "generated s = generated s3 @ concat g2" "chars (trace s) = chars (trace s3) @ g2"
      "hasWhiteSpace (concat g2)"
    by blast
  from seedLetter_text [OF 1] seedLetter_text [OF 3] g1 g2 out
  have "str = ''h'' @ concat g1 @ '' '' @ ''w'' @ concat g2 \<and> chars (trace s) = g1 @ g2"
    by (simp add: started_def separator_def chars_def trace_def)
  with g1(3) g2(3) show ?thesis by blast
qed

text \<open>The first run: the first word is \<open>i\<close> and a space, the second a space.\<close>

theorem two_letters_one_separator_witness:
  "fst demoRun = Value ''hi  w ''
   \<and> chars (trace (snd demoRun)) = [''i'', '' ''] @ ['' '']
   \<and> ''hi  w '' = ''h'' @ concat [''i'', '' ''] @ '' '' @ ''w'' @ concat ['' '']
   \<and> (\<exists>g1 g2. ''hi  w '' = ''h'' @ concat g1 @ '' '' @ ''w'' @ concat g2 \<and>
         chars (trace (snd demoRun)) = g1 @ g2 \<and>
         hasWhiteSpace (concat g1) \<and> hasWhiteSpace (concat g2))"
  using two_letters_one_separator [OF demo_run] demo_run
  by (simp add: chars_def trace_def)
end
